theory Spec2Isabelle
  imports Main "HOL-Library.Char_ord" "HOL-Library.List_Lexorder"
begin

section \<open>Values of the backend\<close>

text \<open>
  The embedding follows \<^verbatim>\<open>backend/main.py\<close> and \<^verbatim>\<open>backend/models.py\<close> of the task
  manager. Every endpoint is a function from the state (the tables of the relational store
  and the upload directory) to the new state, paired with either an error or the response:
  a request that fails keeps what it wrote before it failed.
\<close>

datatype UserRole = USER | ADMIN

datatype TaskStatus = TODO | IN_PROGRESS | DONE | ARCHIVED

text \<open>
  The failures an endpoint can answer with. Each constructor stands for one
  \<^verbatim>\<open>HTTPException(status_code, detail)\<close> of the source, or for an exception that nothing
  catches:
  \<^item> \<open>ValidationError\<close>: 422, the request model or a \<^verbatim>\<open>Query(ge=, le=)\<close> bound refused the input;
  \<^item> \<open>EmailAlreadyRegistered\<close>: 400 \<^verbatim>\<open>Email already registered\<close>;
  \<^item> \<open>NotFound\<close>: 404 (\<^verbatim>\<open>Task not found\<close>, \<^verbatim>\<open>Tag not found\<close>, \<^verbatim>\<open>Target user not found\<close>, ...);
  \<^item> \<open>AccessDenied\<close>: 403 \<^verbatim>\<open>Access denied\<close>;
  \<^item> \<open>AdminRequired\<close>: 403 \<^verbatim>\<open>Admin access required\<close> (with or without \<^verbatim>\<open>for user_id\<close>);
  \<^item> \<open>UnknownTagIds bad\<close>: 400 \<^verbatim>\<open>Unknown tag_ids for this user: bad\<close>;
  \<^item> \<open>NotRepeating\<close>, \<open>NoDueDate\<close>, \<open>CorruptDueDate\<close>: the three 400s of generate-next;
  \<^item> \<open>EmptyFile\<close>, \<open>TooLarge\<close>: the two 400s of the upload;
  \<^item> \<open>MissingOnDisk\<close>: 404 \<^verbatim>\<open>File missing on disk\<close>;
  \<^item> \<open>DatabaseError\<close>: 500 \<^verbatim>\<open>Database error\<close>, raised by \<^verbatim>\<open>execute_db\<close> for any exception
    of the store (a violated constraint);
  \<^item> \<open>OverflowError\<close>: Python's \<^verbatim>\<open>OverflowError: date value out of range\<close>, uncaught;
  \<^item> \<open>OSError\<close>: a failure of \<^verbatim>\<open>open(path, "wb")\<close>, uncaught;
  \<^item> \<open>TypeError\<close>: a row read back after a write is \<^verbatim>\<open>None\<close> and is subscripted, uncaught;
  \<^item> \<open>ValueError\<close>: \<^verbatim>\<open>datetime.fromisoformat\<close> rejects a stored text, uncaught;
  \<^item> \<open>ResponseValidationError\<close>: a response model rejects a stored value, uncaught.
\<close>

datatype error =
    ValidationError
  | EmailAlreadyRegistered
  | NotFound
  | AccessDenied
  | AdminRequired
  | UnknownTagIds "int list"
  | NotRepeating
  | NoDueDate
  | CorruptDueDate
  | EmptyFile
  | TooLarge
  | MissingOnDisk
  | DatabaseError
  | OverflowError
  | OSError
  | TypeError
  | ValueError
  | ResponseValidationError

subsection \<open>Dates\<close>

text \<open>
  A Python \<^verbatim>\<open>datetime\<close>: the wall-clock fields as microseconds since
  0001-01-01T00:00:00, and the offset of its \<^verbatim>\<open>tzinfo\<close> in minutes (\<open>None\<close> for a naive
  value). The type holds the years 1 to 9999 only.
\<close>

record datetime =
  ticks :: int
  tzinfo :: "int option"

definition datetime_max :: int where
  \<comment> \<open>9999-12-31T23:59:59.999999: 3652059 days of 86400000000 microseconds, less one\<close>
  "datetime_max = 3652059 * 86400000000 - 1"

definition timedelta_minutes :: "int \<Rightarrow> int" where
  "timedelta_minutes m = m * 60000000"

definition datetime_add :: "datetime \<Rightarrow> int \<Rightarrow> error + datetime" where
  \<comment> \<open>\<^verbatim>\<open>d + timedelta(minutes=m)\<close>: the fields move, the zone stays; a result outside
      years 1 to 9999 raises. (A \<^verbatim>\<open>timedelta\<close> too large to build raises the same error.)\<close>
  "datetime_add d m =
     (let t = ticks d + timedelta_minutes m
      in if 0 \<le> t \<and> t \<le> datetime_max then Inr (d\<lparr>ticks := t\<rparr>) else Inl OverflowError)"

text \<open>
  A text column holding a date. \<open>Iso d\<close> is the text \<^verbatim>\<open>d.isoformat()\<close>, which
  \<^verbatim>\<open>datetime.fromisoformat\<close> reads back as \<open>d\<close>; \<open>Malformed s\<close> is a text \<open>s\<close> that
  \<^verbatim>\<open>fromisoformat\<close> rejects with \<^verbatim>\<open>ValueError\<close>.
\<close>

datatype isotext = Iso datetime | Malformed string

definition isoformat :: "datetime \<Rightarrow> isotext" where
  "isoformat d = Iso d"

fun fromisoformat :: "isotext \<Rightarrow> datetime option" where
  "fromisoformat (Iso d) = Some d"
| "fromisoformat (Malformed s) = None"

fun truthy_text :: "isotext option \<Rightarrow> bool" where
  \<comment> \<open>\<^verbatim>\<open>if start_at:\<close> on an \<^verbatim>\<open>Optional[str]\<close>: \<^verbatim>\<open>None\<close> and the empty string are false\<close>
  "truthy_text None = False"
| "truthy_text (Some (Iso d)) = True"
| "truthy_text (Some (Malformed s)) = (s \<noteq> [])"

definition replace_utc_if_naive :: "datetime \<Rightarrow> datetime" where
  \<comment> \<open>\<^verbatim>\<open>if d.tzinfo is None: d = d.replace(tzinfo=timezone.utc)\<close>\<close>
  "replace_utc_if_naive d = (if tzinfo d = None then d\<lparr>tzinfo := Some 0\<rparr> else d)"

subsection \<open>Strings\<close>

definition isspace :: "char \<Rightarrow> bool" where
  \<comment> \<open>the code points below 256 that \<^verbatim>\<open>str.isspace\<close> accepts\<close>
  "isspace c = ((of_char c :: nat) \<in> {9, 10, 11, 12, 13, 28, 29, 30, 31, 32, 133, 160})"

definition strip :: "string \<Rightarrow> string" where
  "strip s = rev (dropWhile isspace (rev (dropWhile isspace s)))"

subsection \<open>The pure helpers of main.py\<close>

definition normalize_pagination :: "int \<Rightarrow> int \<Rightarrow> int \<times> int" where
  "normalize_pagination limit offset = (min (max limit 1) 100, max offset 0)"

definition compute_next_run :: "datetime \<Rightarrow> isotext option \<Rightarrow> int \<Rightarrow> error + isotext" where
  \<comment> \<open>\<open>utcnow\<close> is the reading of the clock, \<^verbatim>\<open>datetime.now(timezone.utc)\<close>\<close>
  "compute_next_run utcnow start_at every_minutes =
     (let base =
        (if truthy_text start_at then
           (case fromisoformat (the start_at) of
              Some b \<Rightarrow> replace_utc_if_naive b
            | None \<Rightarrow> utcnow)
         else utcnow)
      in case datetime_add base every_minutes of
           Inl e \<Rightarrow> Inl e
         | Inr next_dt \<Rightarrow> Inr (isoformat next_dt))"

section \<open>The relational store and the upload directory\<close>

text \<open>
  One record per table, with the columns the statements of \<^verbatim>\<open>main.py\<close> name. A table is the
  list of its rows in insertion order. \<^verbatim>\<open>is_done\<close> and \<^verbatim>\<open>is_enabled\<close> are stored as 0 or 1
  and read back with \<^verbatim>\<open>bool\<close>; they are kept as booleans.
\<close>

record User_row =
  User_id :: int
  User_email :: string
  User_name :: string
  User_password :: string
  User_role :: UserRole
  User_created_at :: isotext

record Tag_row =
  Tag_id :: int
  Tag_user_id :: int
  Tag_name :: string
  Tag_created_at :: isotext

record Task_row =
  Task_id :: int
  Task_user_id :: int
  Task_title :: string
  Task_description :: "string option"
  Task_due_at :: "isotext option"
  Task_status :: TaskStatus
  Task_repeat_interval_minutes :: "int option"
  Task_created_at :: isotext
  Task_updated_at :: isotext

text \<open>A row of the association table \<^verbatim>\<open>TaskTag\<close> is the pair \<open>(task_id, tag_id)\<close>.\<close>

type_synonym TaskTag_row = "int \<times> int"

record SubTask_row =
  SubTask_id :: int
  SubTask_task_id :: int
  SubTask_user_id :: int
  SubTask_title :: string
  SubTask_is_done :: bool
  SubTask_created_at :: isotext
  SubTask_updated_at :: isotext

record File_row =
  File_id :: int
  File_task_id :: int
  File_user_id :: int
  File_filename :: string
  File_content_type :: "string option"
  File_size_bytes :: int
  File_storage_path :: string
  File_created_at :: isotext

record Reminder_row =
  Reminder_id :: int
  Reminder_task_id :: int
  Reminder_user_id :: int
  Reminder_every_minutes :: int
  Reminder_start_at :: "isotext option"
  Reminder_end_at :: "isotext option"
  Reminder_is_enabled :: bool
  Reminder_next_run_at :: "isotext option"
  Reminder_created_at :: isotext

text \<open>
  The state: the seven tables, for each table with an integer key the last key the store
  handed out, and the upload directory as an association list from path to content.
\<close>

record state =
  User :: "User_row list"
  Tag :: "Tag_row list"
  Task :: "Task_row list"
  TaskTag :: "TaskTag_row list"
  SubTask :: "SubTask_row list"
  File :: "File_row list"
  Reminder :: "Reminder_row list"
  User_seq :: int
  Tag_seq :: int
  Task_seq :: int
  SubTask_seq :: int
  File_seq :: int
  Reminder_seq :: int
  disk :: "(string \<times> string) list"

text \<open>
  What the sources do not hold and the endpoints depend on: whether \<^verbatim>\<open>os.remove\<close> and
  \<^verbatim>\<open>open(path, "wb")\<close> raise at a path, the directory \<^verbatim>\<open>UPLOAD_DIR\<close>, the collaborators of
  \<^verbatim>\<open>utilities\<close>, the match of \<^verbatim>\<open>EMAIL_REGEX\<close>, the collation of the store on date texts,
  whether the table \<^verbatim>\<open>Tag\<close> declares its \<^verbatim>\<open>user_id\<close> a foreign key, which of the texts that
  \<^verbatim>\<open>fromisoformat\<close> rejects a \<^verbatim>\<open>datetime\<close> field of a response model still accepts, and the
  largest number of parameters the store binds in one statement.
\<close>

record env =
  remove_raises :: "string \<Rightarrow> bool"
  open_raises :: "string \<Rightarrow> bool"
  UPLOAD_DIR :: string
  hash_password :: "string \<Rightarrow> string"
  create_access_token :: "string \<Rightarrow> int \<Rightarrow> UserRole \<Rightarrow> string"
  EMAIL_REGEX_match :: "string \<Rightarrow> bool"
  text_le :: "isotext \<Rightarrow> isotext \<Rightarrow> bool"
  Tag_user_fk :: bool
  parses_as_datetime :: "string \<Rightarrow> bool"
  max_sql_variables :: nat

type_synonym 'a result = "state \<times> (error + 'a)"

subsection \<open>Reading the tables\<close>

definition select_User :: "state \<Rightarrow> int \<Rightarrow> User_row option" where
  "select_User s i = find (\<lambda>r. User_id r = i) (User s)"

definition select_Tag :: "state \<Rightarrow> int \<Rightarrow> Tag_row option" where
  "select_Tag s i = find (\<lambda>r. Tag_id r = i) (Tag s)"

definition select_Task :: "state \<Rightarrow> int \<Rightarrow> Task_row option" where
  "select_Task s i = find (\<lambda>r. Task_id r = i) (Task s)"

definition select_SubTask :: "state \<Rightarrow> int \<Rightarrow> SubTask_row option" where
  "select_SubTask s i = find (\<lambda>r. SubTask_id r = i) (SubTask s)"

definition select_File :: "state \<Rightarrow> int \<Rightarrow> File_row option" where
  "select_File s i = find (\<lambda>r. File_id r = i) (File s)"

definition select_Reminder :: "state \<Rightarrow> int \<Rightarrow> Reminder_row option" where
  "select_Reminder s i = find (\<lambda>r. Reminder_id r = i) (Reminder s)"

subsection \<open>Writing the tables\<close>

text \<open>
  Modelled from the spec: the table declarations (\<^verbatim>\<open>sqliteDB.py\<close> is not among the sources).
  Keys are integers the store assigns monotonically; \<^verbatim>\<open>created_at\<close> and \<^verbatim>\<open>updated_at\<close> take the
  time of the insert; a tag name is unique per owner; deleting a task deletes its SubTask,
  File, Reminder and association rows; deleting a tag deletes its association rows;
  deleting a user deletes the user's tasks with their children. An insert returns the new
  key (\<^verbatim>\<open>cur.lastrowid\<close>).
\<close>

definition insert_Task ::
  "state \<Rightarrow> datetime \<Rightarrow> int \<Rightarrow> string \<Rightarrow> string option \<Rightarrow> isotext option \<Rightarrow> TaskStatus \<Rightarrow>
   int option \<Rightarrow> state \<times> int" where
  "insert_Task s utcnow user_id title description due_at status repeat_interval_minutes =
     (let i = Task_seq s + 1;
          r = \<lparr>Task_id = i, Task_user_id = user_id, Task_title = title,
               Task_description = description, Task_due_at = due_at, Task_status = status,
               Task_repeat_interval_minutes = repeat_interval_minutes,
               Task_created_at = isoformat utcnow, Task_updated_at = isoformat utcnow\<rparr>
      in (s\<lparr>Task := Task s @ [r], Task_seq := i\<rparr>, i))"

definition insert_SubTask ::
  "state \<Rightarrow> datetime \<Rightarrow> int \<Rightarrow> int \<Rightarrow> string \<Rightarrow> bool \<Rightarrow> state \<times> int" where
  "insert_SubTask s utcnow task_id user_id title is_done =
     (let i = SubTask_seq s + 1;
          r = \<lparr>SubTask_id = i, SubTask_task_id = task_id, SubTask_user_id = user_id,
               SubTask_title = title, SubTask_is_done = is_done,
               SubTask_created_at = isoformat utcnow, SubTask_updated_at = isoformat utcnow\<rparr>
      in (s\<lparr>SubTask := SubTask s @ [r], SubTask_seq := i\<rparr>, i))"

definition insert_File ::
  "state \<Rightarrow> datetime \<Rightarrow> int \<Rightarrow> int \<Rightarrow> string \<Rightarrow> string option \<Rightarrow> int \<Rightarrow> string \<Rightarrow>
   state \<times> int" where
  "insert_File s utcnow task_id user_id filename content_type size_bytes storage_path =
     (let i = File_seq s + 1;
          r = \<lparr>File_id = i, File_task_id = task_id, File_user_id = user_id,
               File_filename = filename, File_content_type = content_type,
               File_size_bytes = size_bytes, File_storage_path = storage_path,
               File_created_at = isoformat utcnow\<rparr>
      in (s\<lparr>File := File s @ [r], File_seq := i\<rparr>, i))"

definition insert_Reminder ::
  "state \<Rightarrow> datetime \<Rightarrow> int \<Rightarrow> int \<Rightarrow> int \<Rightarrow> isotext option \<Rightarrow> isotext option \<Rightarrow> bool \<Rightarrow>
   isotext option \<Rightarrow> state \<times> int" where
  "insert_Reminder s utcnow task_id user_id every_minutes start_at end_at is_enabled next_run_at =
     (let i = Reminder_seq s + 1;
          r = \<lparr>Reminder_id = i, Reminder_task_id = task_id, Reminder_user_id = user_id,
               Reminder_every_minutes = every_minutes, Reminder_start_at = start_at,
               Reminder_end_at = end_at, Reminder_is_enabled = is_enabled,
               Reminder_next_run_at = next_run_at, Reminder_created_at = isoformat utcnow\<rparr>
      in (s\<lparr>Reminder := Reminder s @ [r], Reminder_seq := i\<rparr>, i))"

definition insert_Tag :: "env \<Rightarrow> state \<Rightarrow> datetime \<Rightarrow> int \<Rightarrow> string \<Rightarrow> state \<times> (error + int)" where
  \<comment> \<open>a violated constraint raises inside \<^verbatim>\<open>execute_db\<close>, which answers 500\<close>
  "insert_Tag e s utcnow user_id name =
     (if (Tag_user_fk e \<and> select_User s user_id = None)
         \<or> (\<exists>t \<in> set (Tag s). Tag_user_id t = user_id \<and> Tag_name t = name)
      then (s, Inl DatabaseError)
      else
        (let i = Tag_seq s + 1;
             r = \<lparr>Tag_id = i, Tag_user_id = user_id, Tag_name = name,
                  Tag_created_at = isoformat utcnow\<rparr>
         in (s\<lparr>Tag := Tag s @ [r], Tag_seq := i\<rparr>, Inr i)))"

definition insert_or_ignore_TaskTag :: "state \<Rightarrow> int \<Rightarrow> int \<Rightarrow> state" where
  "insert_or_ignore_TaskTag s task_id tag_id =
     (if (task_id, tag_id) \<in> set (TaskTag s) then s
      else s\<lparr>TaskTag := TaskTag s @ [(task_id, tag_id)]\<rparr>)"

definition delete_Task_cascade :: "state \<Rightarrow> int \<Rightarrow> state" where
  "delete_Task_cascade s task_id =
     s\<lparr>Task := filter (\<lambda>r. Task_id r \<noteq> task_id) (Task s),
       TaskTag := filter (\<lambda>tt. fst tt \<noteq> task_id) (TaskTag s),
       SubTask := filter (\<lambda>r. SubTask_task_id r \<noteq> task_id) (SubTask s),
       File := filter (\<lambda>r. File_task_id r \<noteq> task_id) (File s),
       Reminder := filter (\<lambda>r. Reminder_task_id r \<noteq> task_id) (Reminder s)\<rparr>"

definition delete_Tag_cascade :: "state \<Rightarrow> int \<Rightarrow> state" where
  "delete_Tag_cascade s tag_id =
     s\<lparr>Tag := filter (\<lambda>r. Tag_id r \<noteq> tag_id) (Tag s),
       TaskTag := filter (\<lambda>tt. snd tt \<noteq> tag_id) (TaskTag s)\<rparr>"

definition delete_User_cascade :: "state \<Rightarrow> int \<Rightarrow> state" where
  "delete_User_cascade s user_id =
     (let s1 = fold (\<lambda>t st. delete_Task_cascade st (Task_id t))
                 (filter (\<lambda>t. Task_user_id t = user_id) (Task s)) s
      in s1\<lparr>User := filter (\<lambda>r. User_id r \<noteq> user_id) (User s1)\<rparr>)"

subsection \<open>The upload directory\<close>

definition path_exists :: "state \<Rightarrow> string \<Rightarrow> bool" where
  "path_exists s p = (p \<in> fst ` set (disk s))"

definition try_remove :: "env \<Rightarrow> state \<Rightarrow> string \<Rightarrow> state" where
  \<comment> \<open>\<^verbatim>\<open>try: if os.path.exists(p): os.remove(p)\<close> \<^verbatim>\<open>except Exception: logger.warning(...)\<close>\<close>
  "try_remove e s p =
     (if path_exists s p then
        (if remove_raises e p then s
         else s\<lparr>disk := filter (\<lambda>f. fst f \<noteq> p) (disk s)\<rparr>)
      else s)"

definition write_file :: "env \<Rightarrow> state \<Rightarrow> string \<Rightarrow> string \<Rightarrow> state option" where
  \<comment> \<open>\<^verbatim>\<open>with open(p, "wb") as f: f.write(content)\<close>; \<open>None\<close> when \<^verbatim>\<open>open\<close> raises\<close>
  "write_file e s p content =
     (if open_raises e p then None
      else Some (s\<lparr>disk := (p, content) # filter (\<lambda>f. fst f \<noteq> p) (disk s)\<rparr>))"

definition path_join :: "string \<Rightarrow> string \<Rightarrow> string" where
  \<comment> \<open>\<^verbatim>\<open>os.path.join(a, b)\<close> on POSIX\<close>
  "path_join a b =
     (if b \<noteq> [] \<and> hd b = CHR ''/'' then b
      else if a = [] \<or> last a = CHR ''/'' then a @ b
      else a @ ''/'' @ b)"

section \<open>Request and response models (models.py)\<close>

record UserResponse =
  UserResponse_id :: int
  UserResponse_email :: string
  UserResponse_name :: string
  UserResponse_role :: UserRole
  UserResponse_created_at :: isotext

record UserCreate =
  UserCreate_email :: string
  UserCreate_name :: string
  UserCreate_password :: string
  UserCreate_role :: UserRole

record UserUpdate =
  UserUpdate_name :: "string option"
  UserUpdate_role :: "UserRole option"

record TagCreate =
  TagCreate_name :: string

record TagUpdate =
  TagUpdate_name :: "string option"

record SubTaskInlineCreate =
  SubTaskInlineCreate_title :: string
  SubTaskInlineCreate_is_done :: bool

record TaskCreate =
  TaskCreate_title :: string
  TaskCreate_description :: "string option"
  TaskCreate_due_at :: "datetime option"
  TaskCreate_status :: TaskStatus
  TaskCreate_repeat_interval_minutes :: "int option"
  TaskCreate_tag_ids :: "int list option"
  TaskCreate_subtasks :: "SubTaskInlineCreate list option"

record TaskUpdate =
  TaskUpdate_title :: "string option"
  TaskUpdate_description :: "string option"
  TaskUpdate_due_at :: "datetime option"
  TaskUpdate_status :: "TaskStatus option"
  TaskUpdate_repeat_interval_minutes :: "int option"
  TaskUpdate_tag_ids :: "int list option"

record SubTaskCreate =
  SubTaskCreate_task_id :: int
  SubTaskCreate_title :: string
  SubTaskCreate_is_done :: bool

record SubTaskUpdate =
  SubTaskUpdate_title :: "string option"
  SubTaskUpdate_is_done :: "bool option"

record ReminderCreate =
  ReminderCreate_task_id :: int
  ReminderCreate_every_minutes :: int
  ReminderCreate_start_at :: "datetime option"
  ReminderCreate_end_at :: "datetime option"
  ReminderCreate_is_enabled :: bool

record ReminderUpdate =
  ReminderUpdate_every_minutes :: "int option"
  ReminderUpdate_start_at :: "datetime option"
  ReminderUpdate_end_at :: "datetime option"
  ReminderUpdate_is_enabled :: "bool option"

text \<open>
  \<^verbatim>\<open>TagResponse\<close>, \<^verbatim>\<open>SubTaskResponse\<close>, \<^verbatim>\<open>FileResponse\<close> and \<^verbatim>\<open>ReminderResponse\<close> carry exactly
  the columns of their row and are represented by the row. \<^verbatim>\<open>TaskResponse\<close> carries the nine
  columns of the task, its tags and three counters. A response holds a date column as
  stored; building the response fails when one of its \<^verbatim>\<open>datetime\<close> fields rejects the text.
\<close>

record TaskResponse =
  TaskResponse_row :: Task_row
  tags :: "Tag_row list"
  subtasks_count :: nat
  files_count :: nat
  reminders_count :: nat

record CalendarItem =
  CalendarItem_task_id :: int
  CalendarItem_title :: string
  CalendarItem_due_at :: datetime
  CalendarItem_status :: TaskStatus
  CalendarItem_user_id :: int

subsection \<open>The bounds declared with Field\<close>

definition len_between :: "nat \<Rightarrow> nat \<Rightarrow> string \<Rightarrow> bool" where
  "len_between lo hi v = (lo \<le> length v \<and> length v \<le> hi)"

fun opt_all :: "('a \<Rightarrow> bool) \<Rightarrow> 'a option \<Rightarrow> bool" where
  "opt_all P None = True"
| "opt_all P (Some v) = P v"

definition ascii_lower :: "char \<Rightarrow> char" where
  "ascii_lower c =
     (if 65 \<le> (of_char c :: nat) \<and> (of_char c :: nat) \<le> 90
      then char_of ((of_char c :: nat) + 32) else c)"

definition valid_UserCreate :: "env \<Rightarrow> UserCreate \<Rightarrow> bool" where
  "valid_UserCreate e d =
     (EMAIL_REGEX_match e (UserCreate_email d)
      \<and> len_between 1 120 (UserCreate_name d)
      \<and> len_between 6 200 (UserCreate_password d))"

definition valid_UserUpdate :: "UserUpdate \<Rightarrow> bool" where
  "valid_UserUpdate d = opt_all (len_between 1 120) (UserUpdate_name d)"

definition valid_TagCreate :: "TagCreate \<Rightarrow> bool" where
  "valid_TagCreate d = len_between 1 50 (TagCreate_name d)"

definition valid_TagUpdate :: "TagUpdate \<Rightarrow> bool" where
  "valid_TagUpdate d = opt_all (len_between 1 50) (TagUpdate_name d)"

definition valid_SubTaskInlineCreate :: "SubTaskInlineCreate \<Rightarrow> bool" where
  "valid_SubTaskInlineCreate d = len_between 1 200 (SubTaskInlineCreate_title d)"

definition valid_repeat_interval :: "int \<Rightarrow> bool" where
  "valid_repeat_interval m = (1 \<le> m \<and> m \<le> 525600)"

definition valid_TaskCreate :: "TaskCreate \<Rightarrow> bool" where
  "valid_TaskCreate d =
     (len_between 1 200 (TaskCreate_title d)
      \<and> opt_all (len_between 0 2000) (TaskCreate_description d)
      \<and> opt_all valid_repeat_interval (TaskCreate_repeat_interval_minutes d)
      \<and> opt_all (list_all valid_SubTaskInlineCreate) (TaskCreate_subtasks d))"

definition valid_TaskUpdate :: "TaskUpdate \<Rightarrow> bool" where
  "valid_TaskUpdate d =
     (opt_all (len_between 1 200) (TaskUpdate_title d)
      \<and> opt_all (len_between 0 2000) (TaskUpdate_description d)
      \<and> opt_all valid_repeat_interval (TaskUpdate_repeat_interval_minutes d))"

definition valid_SubTaskCreate :: "SubTaskCreate \<Rightarrow> bool" where
  "valid_SubTaskCreate d = len_between 1 200 (SubTaskCreate_title d)"

definition valid_SubTaskUpdate :: "SubTaskUpdate \<Rightarrow> bool" where
  "valid_SubTaskUpdate d = opt_all (len_between 1 200) (SubTaskUpdate_title d)"

definition valid_every_minutes :: "int \<Rightarrow> bool" where
  "valid_every_minutes m = (1 \<le> m \<and> m \<le> 10080)"

definition valid_ReminderCreate :: "ReminderCreate \<Rightarrow> bool" where
  "valid_ReminderCreate d = valid_every_minutes (ReminderCreate_every_minutes d)"

definition valid_ReminderUpdate :: "ReminderUpdate \<Rightarrow> bool" where
  "valid_ReminderUpdate d = opt_all valid_every_minutes (ReminderUpdate_every_minutes d)"

definition valid_pagination :: "int \<Rightarrow> int \<Rightarrow> bool" where
  \<comment> \<open>\<^verbatim>\<open>limit: int = Query(.., ge=1, le=100)\<close>, \<^verbatim>\<open>offset: int = Query(0, ge=0)\<close>\<close>
  "valid_pagination limit offset = (1 \<le> limit \<and> limit \<le> 100 \<and> 0 \<le> offset)"

section \<open>Shared helpers of main.py\<close>

definition fits_sqlite :: "int \<Rightarrow> bool" where
  \<comment> \<open>an integer the store can bind as a parameter: a signed 64-bit integer\<close>
  "fits_sqlite i = (- 9223372036854775808 \<le> i \<and> i \<le> 9223372036854775807)"

text \<open>
  \<^verbatim>\<open>execute_db\<close> binds the parameters of a statement before it runs. An integer outside the
  signed 64-bit range makes the bind raise, and \<^verbatim>\<open>execute_db\<close> answers 500 for it; so does a
  statement with more parameters than the store allows. Every endpoint below checks the
  integers that come from the request at the first statement that binds them. Integers read
  from a row or from the authenticated user need no check.
\<close>

definition stored_ok :: "env \<Rightarrow> isotext \<Rightarrow> bool" where
  \<comment> \<open>whether a \<^verbatim>\<open>datetime\<close> field of a response model accepts the stored text\<close>
  "stored_ok e t = (case t of Iso d \<Rightarrow> True | Malformed x \<Rightarrow> parses_as_datetime e x)"

definition respond :: "bool \<Rightarrow> 'a \<Rightarrow> error + 'a" where
  \<comment> \<open>building a response model raises, uncaught, when a field rejects its value\<close>
  "respond ok r = (if ok then Inr r else Inl ResponseValidationError)"

definition User_dates_ok :: "env \<Rightarrow> User_row \<Rightarrow> bool" where
  "User_dates_ok e r = stored_ok e (User_created_at r)"

definition Tag_dates_ok :: "env \<Rightarrow> Tag_row \<Rightarrow> bool" where
  "Tag_dates_ok e r = stored_ok e (Tag_created_at r)"

definition Task_dates_ok :: "env \<Rightarrow> Task_row \<Rightarrow> bool" where
  "Task_dates_ok e r =
     (opt_all (stored_ok e) (Task_due_at r) \<and> stored_ok e (Task_created_at r)
      \<and> stored_ok e (Task_updated_at r))"

definition SubTask_dates_ok :: "env \<Rightarrow> SubTask_row \<Rightarrow> bool" where
  "SubTask_dates_ok e r =
     (stored_ok e (SubTask_created_at r) \<and> stored_ok e (SubTask_updated_at r))"

definition File_dates_ok :: "env \<Rightarrow> File_row \<Rightarrow> bool" where
  "File_dates_ok e r = stored_ok e (File_created_at r)"

definition Reminder_dates_ok :: "env \<Rightarrow> Reminder_row \<Rightarrow> bool" where
  "Reminder_dates_ok e r =
     (opt_all (stored_ok e) (Reminder_start_at r) \<and> opt_all (stored_ok e) (Reminder_end_at r)
      \<and> opt_all (stored_ok e) (Reminder_next_run_at r) \<and> stored_ok e (Reminder_created_at r))"

definition ensure_task_access :: "int \<Rightarrow> UserResponse \<Rightarrow> error + unit" where
  "ensure_task_access task_user_id current =
     (if UserResponse_role current = ADMIN then Inr ()
      else if task_user_id \<noteq> UserResponse_id current then Inl AccessDenied
      else Inr ())"

definition get_current_admin :: "UserResponse \<Rightarrow> error + unit" where
  "get_current_admin current =
     (if UserResponse_role current \<noteq> ADMIN then Inl AdminRequired else Inr ())"

definition load_task_tags :: "state \<Rightarrow> int \<Rightarrow> Tag_row list" where
  \<comment> \<open>\<^verbatim>\<open>FROM Tag t JOIN TaskTag tt ON tt.tag_id = t.id WHERE tt.task_id = ? ORDER BY t.name\<close>\<close>
  "load_task_tags s task_id =
     sort_key Tag_name
       [t. t \<leftarrow> Tag s, tt \<leftarrow> TaskTag s, snd tt = Tag_id t \<and> fst tt = task_id]"

definition task_counters :: "state \<Rightarrow> int \<Rightarrow> nat \<times> nat \<times> nat" where
  "task_counters s task_id =
     (length (filter (\<lambda>r. SubTask_task_id r = task_id) (SubTask s)),
      length (filter (\<lambda>r. File_task_id r = task_id) (File s)),
      length (filter (\<lambda>r. Reminder_task_id r = task_id) (Reminder s)))"

definition build_TaskResponse :: "env \<Rightarrow> state \<Rightarrow> int \<Rightarrow> Task_row \<Rightarrow> error + TaskResponse" where
  \<comment> \<open>the \<^verbatim>\<open>TaskResponse(id=row["id"], ..., tags=load_task_tags(task_id), **counters)\<close>
      that five endpoints spell out; \<^verbatim>\<open>load_task_tags\<close> builds a \<^verbatim>\<open>TagResponse\<close> per tag\<close>
  "build_TaskResponse e s task_id row =
     (case task_counters s task_id of
        (sc, fc, rc) \<Rightarrow>
          respond (list_all (Tag_dates_ok e) (load_task_tags s task_id) \<and> Task_dates_ok e row)
            \<lparr>TaskResponse_row = row, tags = load_task_tags s task_id,
             subtasks_count = sc, files_count = fc, reminders_count = rc\<rparr>)"

definition build_UserResponse :: "env \<Rightarrow> User_row \<Rightarrow> error + UserResponse" where
  "build_UserResponse e row =
     respond (User_dates_ok e row)
       \<lparr>UserResponse_id = User_id row, UserResponse_email = User_email row,
        UserResponse_name = User_name row, UserResponse_role = User_role row,
        UserResponse_created_at = User_created_at row\<rparr>"

definition sync_task_tags :: "env \<Rightarrow> state \<Rightarrow> int \<Rightarrow> int \<Rightarrow> int list option \<Rightarrow> unit result" where
  "sync_task_tags e s task_id current_user_id tag_ids =
     (case tag_ids of
        None \<Rightarrow> (s, Inr ())
      | Some ids \<Rightarrow>
          if ids \<noteq> [] \<and> (\<not> list_all fits_sqlite ids \<or> length ids + 1 > max_sql_variables e)
          then (s, Inl DatabaseError)
          else
            (let existing = filter (\<lambda>r. Tag_user_id r = current_user_id \<and> Tag_id r \<in> set ids)
                              (Tag s);
                 ok_ids = set (map Tag_id existing);
                 bad = filter (\<lambda>tid. tid \<notin> ok_ids) ids
             in if ids \<noteq> [] \<and> bad \<noteq> [] then (s, Inl (UnknownTagIds bad))
                else
                  (let s1 = s\<lparr>TaskTag := filter (\<lambda>tt. fst tt \<noteq> task_id) (TaskTag s)\<rparr>
                   in (fold (\<lambda>tid st. insert_or_ignore_TaskTag st task_id tid) ids s1, Inr ()))))"

section \<open>Users\<close>

definition register :: "env \<Rightarrow> state \<Rightarrow> datetime \<Rightarrow> UserCreate \<Rightarrow> (string \<times> UserResponse) result" where
  \<comment> \<open>the validator of \<^verbatim>\<open>UserCreate\<close> lowers the email before the endpoint sees it\<close>
  "register e s utcnow user =
     (if \<not> valid_UserCreate e user then (s, Inl ValidationError)
      else
        (let email = map ascii_lower (UserCreate_email user)
         in if find (\<lambda>r. User_email r = email) (User s) \<noteq> None
            then (s, Inl EmailAlreadyRegistered)
            else
              (let i = User_seq s + 1;
                   r = \<lparr>User_id = i, User_email = email, User_name = UserCreate_name user,
                        User_password = hash_password e (UserCreate_password user),
                        User_role = UserCreate_role user, User_created_at = isoformat utcnow\<rparr>;
                   s1 = s\<lparr>User := User s @ [r], User_seq := i\<rparr>
               in case select_User s1 i of
                    None \<Rightarrow> (s1, Inl TypeError)
                  | Some row \<Rightarrow>
                      (case build_UserResponse e row of
                         Inl err \<Rightarrow> (s1, Inl err)
                       | Inr user_data \<Rightarrow>
                           (s1, Inr (create_access_token e (User_email row) (User_id row)
                                       (User_role row), user_data))))))"

definition update_user :: "env \<Rightarrow> state \<Rightarrow> UserResponse \<Rightarrow> int \<Rightarrow> UserUpdate \<Rightarrow> UserResponse result" where
  "update_user e s current user_id data =
     (if get_current_admin current \<noteq> Inr () then (s, Inl AdminRequired)
      else if \<not> valid_UserUpdate data then (s, Inl ValidationError)
      else if \<not> fits_sqlite user_id then (s, Inl DatabaseError)
      else if select_User s user_id = None then (s, Inl NotFound)
      else
        (let upd = (\<lambda>r.
               (let r1 = (case UserUpdate_name data of
                            None \<Rightarrow> r | Some n \<Rightarrow> r\<lparr>User_name := strip n\<rparr>)
                in case UserUpdate_role data of
                     None \<Rightarrow> r1 | Some ro \<Rightarrow> r1\<lparr>User_role := ro\<rparr>));
             s1 = s\<lparr>User := map (\<lambda>r. if User_id r = user_id then upd r else r) (User s)\<rparr>
         in case select_User s1 user_id of
              None \<Rightarrow> (s1, Inl TypeError)
            | Some out \<Rightarrow> (s1, build_UserResponse e out)))"

definition delete_user :: "env \<Rightarrow> state \<Rightarrow> UserResponse \<Rightarrow> int \<Rightarrow> unit result" where
  "delete_user e s current user_id =
     (if get_current_admin current \<noteq> Inr () then (s, Inl AdminRequired)
      else if \<not> fits_sqlite user_id then (s, Inl DatabaseError)
      else if select_User s user_id = None then (s, Inl NotFound)
      else (delete_User_cascade s user_id, Inr ()))"

section \<open>Tags\<close>

definition create_tag ::
  "env \<Rightarrow> state \<Rightarrow> datetime \<Rightarrow> UserResponse \<Rightarrow> int option \<Rightarrow> TagCreate \<Rightarrow> Tag_row result" where
  "create_tag e s utcnow current user_id data =
     (if \<not> valid_TagCreate data then (s, Inl ValidationError)
      else if user_id \<noteq> None \<and> UserResponse_role current \<noteq> ADMIN then (s, Inl AdminRequired)
      else
        (let target_user_id = (case user_id of None \<Rightarrow> UserResponse_id current | Some u \<Rightarrow> u)
         in if \<not> fits_sqlite target_user_id then (s, Inl DatabaseError)
            else
              (case insert_Tag e s utcnow target_user_id (strip (TagCreate_name data)) of
                 (s1, Inl err) \<Rightarrow> (s1, Inl err)
               | (s1, Inr tag_id) \<Rightarrow>
                   (case select_Tag s1 tag_id of
                      None \<Rightarrow> (s1, Inl TypeError)
                    | Some row \<Rightarrow> (s1, respond (Tag_dates_ok e row) row)))))"

definition list_tags :: "env \<Rightarrow> state \<Rightarrow> UserResponse \<Rightarrow> int option \<Rightarrow> Tag_row list result" where
  "list_tags e s current user_id =
     (if user_id \<noteq> None \<and> UserResponse_role current \<noteq> ADMIN then (s, Inl AdminRequired)
      else
        (let target_user_id = (case user_id of None \<Rightarrow> UserResponse_id current | Some u \<Rightarrow> u)
         in if \<not> fits_sqlite target_user_id then (s, Inl DatabaseError)
            else
              (let rows = sort_key Tag_name (filter (\<lambda>r. Tag_user_id r = target_user_id) (Tag s))
               in (s, respond (list_all (Tag_dates_ok e) rows) rows))))"

definition update_Tag_name :: "state \<Rightarrow> int \<Rightarrow> string \<Rightarrow> state option" where
  \<comment> \<open>\<^verbatim>\<open>UPDATE Tag SET name = ? WHERE id = ?\<close>; \<open>None\<close> when the owner has the name already\<close>
  "update_Tag_name s tag_id name =
     (if \<exists>r \<in> set (Tag s). Tag_id r = tag_id \<and>
           (\<exists>t \<in> set (Tag s). Tag_id t \<noteq> tag_id \<and> Tag_user_id t = Tag_user_id r \<and> Tag_name t = name)
      then None
      else Some (s\<lparr>Tag := map (\<lambda>r. if Tag_id r = tag_id then r\<lparr>Tag_name := name\<rparr> else r) (Tag s)\<rparr>))"

definition update_tag :: "env \<Rightarrow> state \<Rightarrow> UserResponse \<Rightarrow> int \<Rightarrow> TagUpdate \<Rightarrow> Tag_row result" where
  "update_tag e s current tag_id data =
     (if \<not> valid_TagUpdate data then (s, Inl ValidationError)
      else if \<not> fits_sqlite tag_id then (s, Inl DatabaseError)
      else case select_Tag s tag_id of
        None \<Rightarrow> (s, Inl NotFound)
      | Some row \<Rightarrow>
          if Tag_user_id row \<noteq> UserResponse_id current \<and> UserResponse_role current \<noteq> ADMIN
          then (s, Inl AccessDenied)
          else
            (case (case TagUpdate_name data of
                     None \<Rightarrow> Some s
                   | Some n \<Rightarrow> update_Tag_name s tag_id (strip n)) of
               None \<Rightarrow> (s, Inl DatabaseError)
             | Some s1 \<Rightarrow>
                 (case select_Tag s1 tag_id of
                    None \<Rightarrow> (s1, Inl TypeError)
                  | Some out \<Rightarrow> (s1, respond (Tag_dates_ok e out) out))))"

definition delete_tag :: "env \<Rightarrow> state \<Rightarrow> UserResponse \<Rightarrow> int \<Rightarrow> unit result" where
  "delete_tag e s current tag_id =
     (if \<not> fits_sqlite tag_id then (s, Inl DatabaseError)
      else case select_Tag s tag_id of
        None \<Rightarrow> (s, Inl NotFound)
      | Some row \<Rightarrow>
          if Tag_user_id row \<noteq> UserResponse_id current \<and> UserResponse_role current \<noteq> ADMIN
          then (s, Inl AccessDenied)
          else (delete_Tag_cascade s tag_id, Inr ()))"

section \<open>Tasks\<close>

fun truthy_int :: "int option \<Rightarrow> bool" where
  \<comment> \<open>\<^verbatim>\<open>if not row["repeat_interval_minutes"]\<close>: \<^verbatim>\<open>None\<close> and 0 are false\<close>
  "truthy_int None = False"
| "truthy_int (Some m) = (m \<noteq> 0)"

definition inline_subtasks :: "TaskCreate \<Rightarrow> SubTaskInlineCreate list" where
  \<comment> \<open>the entries of \<^verbatim>\<open>data.subtasks\<close> with a title that is not blank, cut to the first 50\<close>
  "inline_subtasks data =
     (case TaskCreate_subtasks data of
        None \<Rightarrow> []
      | Some sts \<Rightarrow>
          take 50 (filter (\<lambda>st. SubTaskInlineCreate_title st \<noteq> []
                                 \<and> strip (SubTaskInlineCreate_title st) \<noteq> []) sts))"

definition create_task ::
  "env \<Rightarrow> state \<Rightarrow> datetime \<Rightarrow> UserResponse \<Rightarrow> int option \<Rightarrow> TaskCreate \<Rightarrow> TaskResponse result" where
  "create_task e s utcnow current user_id data =
     (if \<not> valid_TaskCreate data then (s, Inl ValidationError)
      else if user_id \<noteq> None \<and> UserResponse_role current \<noteq> ADMIN then (s, Inl AdminRequired)
      else if user_id \<noteq> None \<and> \<not> fits_sqlite (the user_id) then (s, Inl DatabaseError)
      else if user_id \<noteq> None \<and> select_User s (the user_id) = None then (s, Inl NotFound)
      else
        (let target_user_id = (case user_id of None \<Rightarrow> UserResponse_id current | Some u \<Rightarrow> u)
         in case insert_Task s utcnow target_user_id (strip (TaskCreate_title data))
                   (TaskCreate_description data) (map_option isoformat (TaskCreate_due_at data))
                   (TaskCreate_status data) (TaskCreate_repeat_interval_minutes data) of
              (s1, task_id) \<Rightarrow>
                (case sync_task_tags e s1 task_id target_user_id (TaskCreate_tag_ids data) of
                   (s2, Inl err) \<Rightarrow> (s2, Inl err)
                 | (s2, Inr u) \<Rightarrow>
                     (let s3 = fold (\<lambda>st acc. fst (insert_SubTask acc utcnow task_id target_user_id
                                                       (strip (SubTaskInlineCreate_title st))
                                                       (SubTaskInlineCreate_is_done st)))
                                 (inline_subtasks data) s2
                      in case select_Task s3 task_id of
                           None \<Rightarrow> (s3, Inl TypeError)
                         | Some row \<Rightarrow> (s3, build_TaskResponse e s3 task_id row)))))"

fun like :: "string \<Rightarrow> string \<Rightarrow> bool" where
  \<comment> \<open>\<^verbatim>\<open>text LIKE pattern\<close> of the store (pattern first): \<^verbatim>\<open>%\<close> is any run, \<^verbatim>\<open>_\<close> any one
      character, ASCII letters match without case\<close>
  "like [] t = (t = [])"
| "like (p # ps) [] = (p = CHR ''%'' \<and> like ps [])"
| "like (p # ps) (c # cs) =
     (if p = CHR ''%'' then like ps (c # cs) \<or> like (p # ps) cs
      else (p = CHR ''_'' \<or> ascii_lower p = ascii_lower c) \<and> like ps cs)"

fun insort_by :: "('a \<Rightarrow> 'a \<Rightarrow> bool) \<Rightarrow> 'a \<Rightarrow> 'a list \<Rightarrow> 'a list" where
  "insort_by le x [] = [x]"
| "insort_by le x (y # ys) = (if le x y then x # y # ys else y # insort_by le x ys)"

definition sort_by :: "('a \<Rightarrow> 'a \<Rightarrow> bool) \<Rightarrow> 'a list \<Rightarrow> 'a list" where
  "sort_by le xs = foldr (insort_by le) xs []"

definition due_or_created :: "Task_row \<Rightarrow> isotext" where
  \<comment> \<open>\<^verbatim>\<open>COALESCE(due_at, created_at)\<close>\<close>
  "due_or_created r = (case Task_due_at r of Some d \<Rightarrow> d | None \<Rightarrow> Task_created_at r)"

definition list_tasks_rows ::
  "env \<Rightarrow> state \<Rightarrow> int \<Rightarrow> string option \<Rightarrow> TaskStatus option \<Rightarrow> datetime option \<Rightarrow>
   datetime option \<Rightarrow> Task_row list" where
  \<comment> \<open>the rows the query of \<^verbatim>\<open>list_tasks\<close> selects, in its order, before LIMIT and OFFSET\<close>
  "list_tasks_rows e s target_user_id search status_filter due_from due_to =
     sort_by (\<lambda>a b. text_le e (due_or_created a) (due_or_created b))
       (filter (\<lambda>r. Task_user_id r = target_user_id
            \<and> (case search of
                  None \<Rightarrow> True
                | Some q \<Rightarrow> q = [] \<or> like (''%'' @ q @ ''%'') (Task_title r)
                              \<or> (case Task_description r of
                                    None \<Rightarrow> False
                                  | Some d \<Rightarrow> like (''%'' @ q @ ''%'') d))
            \<and> (case status_filter of None \<Rightarrow> True | Some st \<Rightarrow> Task_status r = st)
            \<and> (case due_from of
                  None \<Rightarrow> True
                | Some f \<Rightarrow> (case Task_due_at r of
                               None \<Rightarrow> False
                             | Some d \<Rightarrow> text_le e (isoformat f) d))
            \<and> (case due_to of
                  None \<Rightarrow> True
                | Some t \<Rightarrow> (case Task_due_at r of
                               None \<Rightarrow> False
                             | Some d \<Rightarrow> text_le e d (isoformat t))))
          (Task s))"

fun build_TaskResponses :: "env \<Rightarrow> state \<Rightarrow> Task_row list \<Rightarrow> error + TaskResponse list" where
  \<comment> \<open>the loop of \<^verbatim>\<open>list_tasks\<close> over the rows of the page\<close>
  "build_TaskResponses e s [] = Inr []"
| "build_TaskResponses e s (r # rs) =
     (case build_TaskResponse e s (Task_id r) r of
        Inl err \<Rightarrow> Inl err
      | Inr x \<Rightarrow>
          (case build_TaskResponses e s rs of
             Inl err \<Rightarrow> Inl err
           | Inr xs \<Rightarrow> Inr (x # xs)))"

definition list_tasks ::
  "env \<Rightarrow> state \<Rightarrow> UserResponse \<Rightarrow> string option \<Rightarrow> TaskStatus option \<Rightarrow> datetime option \<Rightarrow>
   datetime option \<Rightarrow> int option \<Rightarrow> int \<Rightarrow> int \<Rightarrow> TaskResponse list result" where
  "list_tasks e s current search status_filter due_from due_to user_id limit offset =
     (if \<not> valid_pagination limit offset then (s, Inl ValidationError)
      else
        (case normalize_pagination limit offset of
           (lim, off) \<Rightarrow>
             if user_id \<noteq> None \<and> UserResponse_role current \<noteq> ADMIN then (s, Inl AdminRequired)
             else
               (let target_user_id =
                      (case user_id of None \<Rightarrow> UserResponse_id current | Some u \<Rightarrow> u)
                in if \<not> (fits_sqlite target_user_id \<and> fits_sqlite lim \<and> fits_sqlite off)
                   then (s, Inl DatabaseError)
                   else
                     (let rows = take (nat lim) (drop (nat off)
                                   (list_tasks_rows e s target_user_id search status_filter
                                      due_from due_to))
                      in (s, build_TaskResponses e s rows)))))"

definition get_task :: "env \<Rightarrow> state \<Rightarrow> UserResponse \<Rightarrow> int \<Rightarrow> TaskResponse result" where
  "get_task e s current task_id =
     (if \<not> fits_sqlite task_id then (s, Inl DatabaseError)
      else case select_Task s task_id of
        None \<Rightarrow> (s, Inl NotFound)
      | Some row \<Rightarrow>
          (case ensure_task_access (Task_user_id row) current of
             Inl err \<Rightarrow> (s, Inl err)
           | Inr u \<Rightarrow> (s, build_TaskResponse e s task_id row)))"

definition update_Task_row :: "TaskUpdate \<Rightarrow> Task_row \<Rightarrow> Task_row" where
  \<comment> \<open>the \<^verbatim>\<open>SET\<close> list \<^verbatim>\<open>update_task\<close> collects: a column for every field that is not \<^verbatim>\<open>None\<close>\<close>
  "update_Task_row data r =
     (let r1 = (case TaskUpdate_title data of
                  None \<Rightarrow> r | Some v \<Rightarrow> r\<lparr>Task_title := strip v\<rparr>);
          r2 = (case TaskUpdate_description data of
                  None \<Rightarrow> r1 | Some v \<Rightarrow> r1\<lparr>Task_description := Some v\<rparr>);
          r3 = (case TaskUpdate_due_at data of
                  None \<Rightarrow> r2 | Some v \<Rightarrow> r2\<lparr>Task_due_at := Some (isoformat v)\<rparr>);
          r4 = (case TaskUpdate_status data of
                  None \<Rightarrow> r3 | Some v \<Rightarrow> r3\<lparr>Task_status := v\<rparr>)
      in case TaskUpdate_repeat_interval_minutes data of
           None \<Rightarrow> r4 | Some v \<Rightarrow> r4\<lparr>Task_repeat_interval_minutes := Some v\<rparr>)"

definition update_task :: "env \<Rightarrow> state \<Rightarrow> UserResponse \<Rightarrow> int \<Rightarrow> TaskUpdate \<Rightarrow> TaskResponse result" where
  "update_task e s current task_id data =
     (if \<not> valid_TaskUpdate data then (s, Inl ValidationError)
      else if \<not> fits_sqlite task_id then (s, Inl DatabaseError)
      else case select_Task s task_id of
        None \<Rightarrow> (s, Inl NotFound)
      | Some row \<Rightarrow>
          (case ensure_task_access (Task_user_id row) current of
             Inl err \<Rightarrow> (s, Inl err)
           | Inr u \<Rightarrow>
               (let s1 = s\<lparr>Task := map (\<lambda>r. if Task_id r = task_id then update_Task_row data r else r)
                                     (Task s)\<rparr>
                in case sync_task_tags e s1 task_id (Task_user_id row) (TaskUpdate_tag_ids data) of
                     (s2, Inl err) \<Rightarrow> (s2, Inl err)
                   | (s2, Inr u2) \<Rightarrow>
                       (case select_Task s2 task_id of
                          None \<Rightarrow> (s2, Inl TypeError)
                        | Some updated \<Rightarrow> (s2, build_TaskResponse e s2 task_id updated)))))"

definition delete_task :: "env \<Rightarrow> state \<Rightarrow> UserResponse \<Rightarrow> int \<Rightarrow> unit result" where
  "delete_task e s current task_id =
     (if \<not> fits_sqlite task_id then (s, Inl DatabaseError)
      else case select_Task s task_id of
        None \<Rightarrow> (s, Inl NotFound)
      | Some row \<Rightarrow>
          (case ensure_task_access (Task_user_id row) current of
             Inl err \<Rightarrow> (s, Inl err)
           | Inr u \<Rightarrow>
               (let files = map File_storage_path (filter (\<lambda>r. File_task_id r = task_id) (File s));
                    s1 = fold (\<lambda>f acc. try_remove e acc f) files s
                in (delete_Task_cascade s1 task_id, Inr ()))))"

definition generate_next_occurrence ::
  "env \<Rightarrow> state \<Rightarrow> datetime \<Rightarrow> UserResponse \<Rightarrow> int \<Rightarrow> TaskResponse result" where
  "generate_next_occurrence e s utcnow current task_id =
     (if \<not> fits_sqlite task_id then (s, Inl DatabaseError)
      else case select_Task s task_id of
        None \<Rightarrow> (s, Inl NotFound)
      | Some row \<Rightarrow>
          (case ensure_task_access (Task_user_id row) current of
             Inl err \<Rightarrow> (s, Inl err)
           | Inr u \<Rightarrow>
               if \<not> truthy_int (Task_repeat_interval_minutes row) then (s, Inl NotRepeating)
               else if \<not> truthy_text (Task_due_at row) then (s, Inl NoDueDate)
               else
                 (case fromisoformat (the (Task_due_at row)) of
                    None \<Rightarrow> (s, Inl CorruptDueDate)
                  | Some d \<Rightarrow>
                      (case datetime_add (replace_utc_if_naive d)
                              (the (Task_repeat_interval_minutes row)) of
                         Inl err \<Rightarrow> (s, Inl err)
                       | Inr next_due \<Rightarrow>
                           (case insert_Task s utcnow (Task_user_id row) (Task_title row)
                                   (Task_description row) (Some (isoformat next_due)) TODO
                                   (Task_repeat_interval_minutes row) of
                              (s1, new_id) \<Rightarrow>
                                (let tag_links = map snd (filter (\<lambda>tt. fst tt = task_id) (TaskTag s1));
                                     s2 = fold (\<lambda>tl acc. insert_or_ignore_TaskTag acc new_id tl)
                                            tag_links s1
                                 in case select_Task s2 new_id of
                                      None \<Rightarrow> (s2, Inl TypeError)
                                    | Some created \<Rightarrow>
                                        (s2, build_TaskResponse e s2 new_id created)))))))"

section \<open>Subtasks\<close>

definition create_subtask ::
  "env \<Rightarrow> state \<Rightarrow> datetime \<Rightarrow> UserResponse \<Rightarrow> SubTaskCreate \<Rightarrow> SubTask_row result" where
  "create_subtask e s utcnow current data =
     (if \<not> valid_SubTaskCreate data then (s, Inl ValidationError)
      else if \<not> fits_sqlite (SubTaskCreate_task_id data) then (s, Inl DatabaseError)
      else case select_Task s (SubTaskCreate_task_id data) of
        None \<Rightarrow> (s, Inl NotFound)
      | Some task \<Rightarrow>
          (case ensure_task_access (Task_user_id task) current of
             Inl err \<Rightarrow> (s, Inl err)
           | Inr u \<Rightarrow>
               (case insert_SubTask s utcnow (SubTaskCreate_task_id data) (Task_user_id task)
                       (strip (SubTaskCreate_title data)) (SubTaskCreate_is_done data) of
                  (s1, sid) \<Rightarrow>
                    (case select_SubTask s1 sid of
                       None \<Rightarrow> (s1, Inl TypeError)
                     | Some row \<Rightarrow> (s1, respond (SubTask_dates_ok e row) row)))))"

definition list_subtasks :: "env \<Rightarrow> state \<Rightarrow> UserResponse \<Rightarrow> int \<Rightarrow> SubTask_row list result" where
  "list_subtasks e s current task_id =
     (if \<not> fits_sqlite task_id then (s, Inl DatabaseError)
      else case select_Task s task_id of
        None \<Rightarrow> (s, Inl NotFound)
      | Some task \<Rightarrow>
          (case ensure_task_access (Task_user_id task) current of
             Inl err \<Rightarrow> (s, Inl err)
           | Inr u \<Rightarrow>
               (let rows = sort_by (\<lambda>a b. text_le e (SubTask_created_at a) (SubTask_created_at b))
                             (filter (\<lambda>r. SubTask_task_id r = task_id) (SubTask s))
                in (s, respond (list_all (SubTask_dates_ok e) rows) rows))))"

definition update_SubTask_row :: "SubTaskUpdate \<Rightarrow> SubTask_row \<Rightarrow> SubTask_row" where
  "update_SubTask_row data r =
     (let r1 = (case SubTaskUpdate_title data of
                  None \<Rightarrow> r | Some v \<Rightarrow> r\<lparr>SubTask_title := strip v\<rparr>)
      in case SubTaskUpdate_is_done data of
           None \<Rightarrow> r1 | Some v \<Rightarrow> r1\<lparr>SubTask_is_done := v\<rparr>)"

definition update_subtask ::
  "env \<Rightarrow> state \<Rightarrow> UserResponse \<Rightarrow> int \<Rightarrow> SubTaskUpdate \<Rightarrow> SubTask_row result" where
  "update_subtask e s current subtask_id data =
     (if \<not> valid_SubTaskUpdate data then (s, Inl ValidationError)
      else if \<not> fits_sqlite subtask_id then (s, Inl DatabaseError)
      else case select_SubTask s subtask_id of
        None \<Rightarrow> (s, Inl NotFound)
      | Some row \<Rightarrow>
          (case select_Task s (SubTask_task_id row) of
             None \<Rightarrow> (s, Inl NotFound)
           | Some task \<Rightarrow>
               (case ensure_task_access (Task_user_id task) current of
                  Inl err \<Rightarrow> (s, Inl err)
                | Inr u \<Rightarrow>
                    (let s1 = s\<lparr>SubTask := map (\<lambda>r. if SubTask_id r = subtask_id
                                                       then update_SubTask_row data r else r)
                                             (SubTask s)\<rparr>
                     in case select_SubTask s1 subtask_id of
                          None \<Rightarrow> (s1, Inl TypeError)
                        | Some updated \<Rightarrow> (s1, respond (SubTask_dates_ok e updated) updated)))))"

definition delete_subtask :: "env \<Rightarrow> state \<Rightarrow> UserResponse \<Rightarrow> int \<Rightarrow> unit result" where
  "delete_subtask e s current subtask_id =
     (if \<not> fits_sqlite subtask_id then (s, Inl DatabaseError)
      else case select_SubTask s subtask_id of
        None \<Rightarrow> (s, Inl NotFound)
      | Some row \<Rightarrow>
          (case select_Task s (SubTask_task_id row) of
             None \<Rightarrow> (s, Inl NotFound)
           | Some task \<Rightarrow>
               (case ensure_task_access (Task_user_id task) current of
                  Inl err \<Rightarrow> (s, Inl err)
                | Inr u \<Rightarrow>
                    (s\<lparr>SubTask := filter (\<lambda>r. SubTask_id r \<noteq> subtask_id) (SubTask s)\<rparr>, Inr ()))))"

section \<open>Calendar\<close>

definition calendar_view ::
  "env \<Rightarrow> state \<Rightarrow> UserResponse \<Rightarrow> datetime \<Rightarrow> datetime \<Rightarrow> int option \<Rightarrow> CalendarItem list result" where
  \<comment> \<open>\<^verbatim>\<open>datetime.fromisoformat(r["due_at"])\<close> raises, uncaught, on a text it rejects\<close>
  "calendar_view e s current date_from date_to user_id =
     (if user_id \<noteq> None \<and> UserResponse_role current \<noteq> ADMIN then (s, Inl AdminRequired)
      else
        (let target_user_id = (case user_id of None \<Rightarrow> UserResponse_id current | Some u \<Rightarrow> u)
         in if \<not> fits_sqlite target_user_id then (s, Inl DatabaseError)
            else
              (let rows = sort_by (\<lambda>a b. text_le e (the (Task_due_at a)) (the (Task_due_at b)))
                            (filter (\<lambda>r. Task_user_id r = target_user_id
                                         \<and> (case Task_due_at r of
                                               None \<Rightarrow> False
                                             | Some d \<Rightarrow> text_le e (isoformat date_from) d
                                                          \<and> text_le e d (isoformat date_to)))
                               (Task s))
               in if \<exists>r \<in> set rows. fromisoformat (the (Task_due_at r)) = None
                  then (s, Inl ValueError)
                  else (s, Inr (map (\<lambda>r. \<lparr>CalendarItem_task_id = Task_id r,
                                            CalendarItem_title = Task_title r,
                                            CalendarItem_due_at =
                                              the (fromisoformat (the (Task_due_at r))),
                                            CalendarItem_status = Task_status r,
                                            CalendarItem_user_id = Task_user_id r\<rparr>) rows)))))"

section \<open>Files\<close>

definition upload_file ::
  "env \<Rightarrow> state \<Rightarrow> datetime \<Rightarrow> string \<Rightarrow> UserResponse \<Rightarrow> int \<Rightarrow> string option \<Rightarrow> string option \<Rightarrow>
   string \<Rightarrow> File_row result" where
  \<comment> \<open>\<open>uuid4\<close> is \<^verbatim>\<open>str(uuid.uuid4())\<close>; \<open>filename\<close>, \<open>content_type\<close> and \<open>content\<close> are
      \<^verbatim>\<open>file.filename\<close>, \<^verbatim>\<open>file.content_type\<close> and \<^verbatim>\<open>file.file.read()\<close>\<close>
  "upload_file e s utcnow uuid4 current task_id filename content_type content =
     (if \<not> fits_sqlite task_id then (s, Inl DatabaseError)
      else case select_Task s task_id of
        None \<Rightarrow> (s, Inl NotFound)
      | Some task \<Rightarrow>
          (case ensure_task_access (Task_user_id task) current of
             Inl err \<Rightarrow> (s, Inl err)
           | Inr u \<Rightarrow>
               (let safe_name = (case filename of
                                   None \<Rightarrow> ''file''
                                 | Some n \<Rightarrow> if n = [] then ''file'' else n);
                    file_id = uuid4;
                    storage_path = path_join (UPLOAD_DIR e) (file_id @ ''__'' @ safe_name);
                    size = int (length content)
                in if size = 0 then (s, Inl EmptyFile)
                   else if size > 25 * 1024 * 1024 then (s, Inl TooLarge)
                   else
                     (case write_file e s storage_path content of
                        None \<Rightarrow> (s, Inl OSError)
                      | Some s1 \<Rightarrow>
                          (case insert_File s1 utcnow task_id (Task_user_id task) safe_name
                                  content_type size storage_path of
                             (s2, fid) \<Rightarrow>
                               (case select_File s2 fid of
                                  None \<Rightarrow> (s2, Inl TypeError)
                                | Some row \<Rightarrow> (s2, respond (File_dates_ok e row) row)))))))"

definition list_files :: "env \<Rightarrow> state \<Rightarrow> UserResponse \<Rightarrow> int \<Rightarrow> File_row list result" where
  "list_files e s current task_id =
     (if \<not> fits_sqlite task_id then (s, Inl DatabaseError)
      else case select_Task s task_id of
        None \<Rightarrow> (s, Inl NotFound)
      | Some task \<Rightarrow>
          (case ensure_task_access (Task_user_id task) current of
             Inl err \<Rightarrow> (s, Inl err)
           | Inr u \<Rightarrow>
               (let rows = sort_by (\<lambda>a b. text_le e (File_created_at b) (File_created_at a))
                             (filter (\<lambda>r. File_task_id r = task_id) (File s))
                in (s, respond (list_all (File_dates_ok e) rows) rows))))"

definition download_file ::
  "env \<Rightarrow> state \<Rightarrow> UserResponse \<Rightarrow> int \<Rightarrow> (string \<times> string \<times> string) result" where
  \<comment> \<open>the answer is the path, the file name and the media type handed to the file response\<close>
  "download_file e s current file_id =
     (if \<not> fits_sqlite file_id then (s, Inl DatabaseError)
      else case select_File s file_id of
        None \<Rightarrow> (s, Inl NotFound)
      | Some row \<Rightarrow>
          (case select_Task s (File_task_id row) of
             None \<Rightarrow> (s, Inl NotFound)
           | Some task \<Rightarrow>
               (case ensure_task_access (Task_user_id task) current of
                  Inl err \<Rightarrow> (s, Inl err)
                | Inr u \<Rightarrow>
                    if \<not> path_exists s (File_storage_path row) then (s, Inl MissingOnDisk)
                    else (s, Inr (File_storage_path row, File_filename row,
                                  (case File_content_type row of
                                     None \<Rightarrow> ''application/octet-stream''
                                   | Some c \<Rightarrow> if c = [] then ''application/octet-stream'' else c))))))"

definition delete_file :: "env \<Rightarrow> state \<Rightarrow> UserResponse \<Rightarrow> int \<Rightarrow> unit result" where
  "delete_file e s current file_id =
     (if \<not> fits_sqlite file_id then (s, Inl DatabaseError)
      else case select_File s file_id of
        None \<Rightarrow> (s, Inl NotFound)
      | Some row \<Rightarrow>
          (case select_Task s (File_task_id row) of
             None \<Rightarrow> (s, Inl NotFound)
           | Some task \<Rightarrow>
               (case ensure_task_access (Task_user_id task) current of
                  Inl err \<Rightarrow> (s, Inl err)
                | Inr u \<Rightarrow>
                    (let s1 = try_remove e s (File_storage_path row)
                     in (s1\<lparr>File := filter (\<lambda>r. File_id r \<noteq> file_id) (File s1)\<rparr>, Inr ())))))"

section \<open>Reminders\<close>

definition create_reminder ::
  "env \<Rightarrow> state \<Rightarrow> datetime \<Rightarrow> UserResponse \<Rightarrow> int \<Rightarrow> ReminderCreate \<Rightarrow> Reminder_row result" where
  "create_reminder e s utcnow current task_id data =
     (if \<not> valid_ReminderCreate data then (s, Inl ValidationError)
      else if \<not> fits_sqlite task_id then (s, Inl DatabaseError)
      else case select_Task s task_id of
        None \<Rightarrow> (s, Inl NotFound)
      | Some task \<Rightarrow>
          (case ensure_task_access (Task_user_id task) current of
             Inl err \<Rightarrow> (s, Inl err)
           | Inr u \<Rightarrow>
               (let start_at = map_option isoformat (ReminderCreate_start_at data);
                    end_at = map_option isoformat (ReminderCreate_end_at data)
                in case compute_next_run utcnow start_at (ReminderCreate_every_minutes data) of
                     Inl err \<Rightarrow> (s, Inl err)
                   | Inr next_run \<Rightarrow>
                       (case insert_Reminder s utcnow task_id (Task_user_id task)
                               (ReminderCreate_every_minutes data) start_at end_at
                               (ReminderCreate_is_enabled data) (Some next_run) of
                          (s1, rid) \<Rightarrow>
                            (case select_Reminder s1 rid of
                               None \<Rightarrow> (s1, Inl TypeError)
                             | Some row \<Rightarrow> (s1, respond (Reminder_dates_ok e row) row))))))"

definition list_reminders :: "env \<Rightarrow> state \<Rightarrow> UserResponse \<Rightarrow> int \<Rightarrow> Reminder_row list result" where
  "list_reminders e s current task_id =
     (if \<not> fits_sqlite task_id then (s, Inl DatabaseError)
      else case select_Task s task_id of
        None \<Rightarrow> (s, Inl NotFound)
      | Some task \<Rightarrow>
          (case ensure_task_access (Task_user_id task) current of
             Inl err \<Rightarrow> (s, Inl err)
           | Inr u \<Rightarrow>
               (let rows = sort_by (\<lambda>a b. text_le e (Reminder_created_at b) (Reminder_created_at a))
                             (filter (\<lambda>r. Reminder_task_id r = task_id) (Reminder s))
                in (s, respond (list_all (Reminder_dates_ok e) rows) rows))))"

definition update_Reminder_row :: "ReminderUpdate \<Rightarrow> isotext \<Rightarrow> Reminder_row \<Rightarrow> Reminder_row" where
  "update_Reminder_row data next_run r =
     (let r1 = (case ReminderUpdate_every_minutes data of
                  None \<Rightarrow> r | Some v \<Rightarrow> r\<lparr>Reminder_every_minutes := v\<rparr>);
          r2 = (case ReminderUpdate_start_at data of
                  None \<Rightarrow> r1 | Some v \<Rightarrow> r1\<lparr>Reminder_start_at := Some (isoformat v)\<rparr>);
          r3 = (case ReminderUpdate_end_at data of
                  None \<Rightarrow> r2 | Some v \<Rightarrow> r2\<lparr>Reminder_end_at := Some (isoformat v)\<rparr>);
          r4 = (case ReminderUpdate_is_enabled data of
                  None \<Rightarrow> r3 | Some v \<Rightarrow> r3\<lparr>Reminder_is_enabled := v\<rparr>)
      in r4\<lparr>Reminder_next_run_at := Some next_run\<rparr>)"

definition select_Reminder_of_task :: "state \<Rightarrow> int \<Rightarrow> int \<Rightarrow> Reminder_row option" where
  \<comment> \<open>\<^verbatim>\<open>SELECT * FROM Reminder WHERE id = ? AND task_id = ?\<close>\<close>
  "select_Reminder_of_task s reminder_id task_id =
     find (\<lambda>r. Reminder_id r = reminder_id \<and> Reminder_task_id r = task_id) (Reminder s)"

definition update_reminder ::
  "env \<Rightarrow> state \<Rightarrow> datetime \<Rightarrow> UserResponse \<Rightarrow> int \<Rightarrow> int \<Rightarrow> ReminderUpdate \<Rightarrow> Reminder_row result" where
  "update_reminder e s utcnow current task_id reminder_id data =
     (if \<not> valid_ReminderUpdate data then (s, Inl ValidationError)
      else if \<not> fits_sqlite task_id then (s, Inl DatabaseError)
      else case select_Task s task_id of
        None \<Rightarrow> (s, Inl NotFound)
      | Some task \<Rightarrow>
          (case ensure_task_access (Task_user_id task) current of
             Inl err \<Rightarrow> (s, Inl err)
           | Inr u \<Rightarrow>
               if \<not> fits_sqlite reminder_id then (s, Inl DatabaseError)
               else
                 (case select_Reminder_of_task s reminder_id task_id of
                    None \<Rightarrow> (s, Inl NotFound)
                  | Some row \<Rightarrow>
                      if ReminderUpdate_every_minutes data = None
                         \<and> ReminderUpdate_start_at data = None
                         \<and> ReminderUpdate_end_at data = None
                         \<and> ReminderUpdate_is_enabled data = None
                      then
                        (case select_Reminder s reminder_id of
                           None \<Rightarrow> (s, Inl TypeError)
                         | Some out \<Rightarrow> (s, respond (Reminder_dates_ok e out) out))
                      else
                        (let new_every = (case ReminderUpdate_every_minutes data of
                                            None \<Rightarrow> Reminder_every_minutes row | Some v \<Rightarrow> v);
                             new_start = (case ReminderUpdate_start_at data of
                                            None \<Rightarrow> Reminder_start_at row
                                          | Some v \<Rightarrow> Some (isoformat v))
                         in case compute_next_run utcnow new_start new_every of
                              Inl err \<Rightarrow> (s, Inl err)
                            | Inr next_run \<Rightarrow>
                                (let s1 = s\<lparr>Reminder :=
                                              map (\<lambda>r. if Reminder_id r = reminder_id
                                                        then update_Reminder_row data next_run r
                                                        else r)
                                                (Reminder s)\<rparr>
                                 in case select_Reminder s1 reminder_id of
                                      None \<Rightarrow> (s1, Inl TypeError)
                                    | Some out \<Rightarrow>
                                        (s1, respond (Reminder_dates_ok e out) out))))))"

definition delete_reminder :: "env \<Rightarrow> state \<Rightarrow> UserResponse \<Rightarrow> int \<Rightarrow> int \<Rightarrow> unit result" where
  "delete_reminder e s current task_id reminder_id =
     (if \<not> fits_sqlite task_id then (s, Inl DatabaseError)
      else case select_Task s task_id of
        None \<Rightarrow> (s, Inl NotFound)
      | Some task \<Rightarrow>
          (case ensure_task_access (Task_user_id task) current of
             Inl err \<Rightarrow> (s, Inl err)
           | Inr u \<Rightarrow>
               if \<not> fits_sqlite reminder_id then (s, Inl DatabaseError)
               else
                 (case select_Reminder_of_task s reminder_id task_id of
                    None \<Rightarrow> (s, Inl NotFound)
                  | Some row \<Rightarrow>
                      (s\<lparr>Reminder := filter (\<lambda>r. Reminder_id r \<noteq> reminder_id) (Reminder s)\<rparr>,
                       Inr ()))))"

section \<open>Requests that write\<close>

text \<open>
  The endpoints that write to the store or to the upload directory, as one type of
  requests. The other endpoints (\<open>list_tags\<close>, \<open>list_tasks\<close>, \<open>get_task\<close>, \<open>list_subtasks\<close>,
  \<open>calendar_view\<close>, \<open>list_files\<close>, \<open>download_file\<close>, \<open>list_reminders\<close>) return the state
  they were given.
\<close>

datatype request =
    Register UserCreate
  | UpdateUser int UserUpdate
  | DeleteUser int
  | CreateTag "int option" TagCreate
  | UpdateTag int TagUpdate
  | DeleteTag int
  | CreateTask "int option" TaskCreate
  | UpdateTask int TaskUpdate
  | DeleteTask int
  | GenerateNext int
  | CreateSubtask SubTaskCreate
  | UpdateSubtask int SubTaskUpdate
  | DeleteSubtask int
  | UploadFile int "string option" "string option" string
  | DeleteFile int
  | CreateReminder int ReminderCreate
  | UpdateReminder int int ReminderUpdate
  | DeleteReminder int int

definition outcome :: "'a result \<Rightarrow> state \<times> error option" where
  "outcome r = (fst r, case snd r of Inl err \<Rightarrow> Some err | Inr v \<Rightarrow> None)"

fun perform :: "env \<Rightarrow> datetime \<Rightarrow> string \<Rightarrow> UserResponse \<Rightarrow> request \<Rightarrow> state \<Rightarrow> state \<times> error option" where
  "perform e utcnow uuid4 current (Register d) s = outcome (register e s utcnow d)"
| "perform e utcnow uuid4 current (UpdateUser i d) s = outcome (update_user e s current i d)"
| "perform e utcnow uuid4 current (DeleteUser i) s = outcome (delete_user e s current i)"
| "perform e utcnow uuid4 current (CreateTag u d) s = outcome (create_tag e s utcnow current u d)"
| "perform e utcnow uuid4 current (UpdateTag i d) s = outcome (update_tag e s current i d)"
| "perform e utcnow uuid4 current (DeleteTag i) s = outcome (delete_tag e s current i)"
| "perform e utcnow uuid4 current (CreateTask u d) s = outcome (create_task e s utcnow current u d)"
| "perform e utcnow uuid4 current (UpdateTask i d) s = outcome (update_task e s current i d)"
| "perform e utcnow uuid4 current (DeleteTask i) s = outcome (delete_task e s current i)"
| "perform e utcnow uuid4 current (GenerateNext i) s =
     outcome (generate_next_occurrence e s utcnow current i)"
| "perform e utcnow uuid4 current (CreateSubtask d) s = outcome (create_subtask e s utcnow current d)"
| "perform e utcnow uuid4 current (UpdateSubtask i d) s = outcome (update_subtask e s current i d)"
| "perform e utcnow uuid4 current (DeleteSubtask i) s = outcome (delete_subtask e s current i)"
| "perform e utcnow uuid4 current (UploadFile i n c b) s =
     outcome (upload_file e s utcnow uuid4 current i n c b)"
| "perform e utcnow uuid4 current (DeleteFile i) s = outcome (delete_file e s current i)"
| "perform e utcnow uuid4 current (CreateReminder i d) s =
     outcome (create_reminder e s utcnow current i d)"
| "perform e utcnow uuid4 current (UpdateReminder i j d) s =
     outcome (update_reminder e s utcnow current i j d)"
| "perform e utcnow uuid4 current (DeleteReminder i j) s = outcome (delete_reminder e s current i j)"

section \<open>Properties of the state\<close>

definition canAccess :: "int \<Rightarrow> UserRole \<Rightarrow> int \<Rightarrow> bool" where
  \<comment> \<open>the rule as the specification words it: \<^verbatim>\<open>canAccess(actorId, actorRole, resourceOwnerId)\<close>\<close>
  "canAccess actorId actorRole resourceOwnerId =
     (actorRole = ADMIN \<or> actorId = resourceOwnerId)"

definition may_access :: "UserResponse \<Rightarrow> int \<Rightarrow> bool" where
  "may_access current owner = canAccess (UserResponse_id current) (UserResponse_role current) owner"

definition dates_ok :: "env \<Rightarrow> state \<Rightarrow> bool" where
  \<comment> \<open>every date column of every row holds a text the response models accept\<close>
  "dates_ok e s =
     (list_all (User_dates_ok e) (User s) \<and> list_all (Tag_dates_ok e) (Tag s)
      \<and> list_all (Task_dates_ok e) (Task s) \<and> list_all (SubTask_dates_ok e) (SubTask s)
      \<and> list_all (File_dates_ok e) (File s) \<and> list_all (Reminder_dates_ok e) (Reminder s))"

definition owner_of :: "state \<Rightarrow> int \<Rightarrow> int option" where
  \<comment> \<open>the owner of the task with the given key, if there is such a task\<close>
  "owner_of s task_id = map_option Task_user_id (select_Task s task_id)"

definition child_owner_inv :: "state \<Rightarrow> bool" where
  \<comment> \<open>every SubTask, File and Reminder row has a parent task, and carries its owner\<close>
  "child_owner_inv s =
     (list_all (\<lambda>c. owner_of s (SubTask_task_id c) = Some (SubTask_user_id c)) (SubTask s)
      \<and> list_all (\<lambda>c. owner_of s (File_task_id c) = Some (File_user_id c)) (File s)
      \<and> list_all (\<lambda>c. owner_of s (Reminder_task_id c) = Some (Reminder_user_id c)) (Reminder s))"

definition keys_issued :: "state \<Rightarrow> bool" where
  \<comment> \<open>every task key in use was handed out by the store: it is at most the last key\<close>
  "keys_issued s =
     (list_all (\<lambda>t. Task_id t \<le> Task_seq s) (Task s)
      \<and> list_all (\<lambda>tt. fst tt \<le> Task_seq s) (TaskTag s))"

definition store_ok :: "state \<Rightarrow> bool" where
  "store_ok s = (keys_issued s \<and> child_owner_inv s)"

definition tag_ids_of :: "state \<Rightarrow> int \<Rightarrow> int set" where
  \<comment> \<open>the tags associated with a task\<close>
  "tag_ids_of s task_id = snd ` {tt \<in> set (TaskTag s). fst tt = task_id}"

definition in_datetime_range :: "int \<Rightarrow> bool" where
  "in_datetime_range t = (0 \<le> t \<and> t \<le> datetime_max)"

section \<open>Example data\<close>

definition noon :: datetime where
  \<comment> \<open>2025-01-01T12:00:00+00:00\<close>
  "noon = \<lparr>ticks = 63871329600000000, tzinfo = Some 0\<rparr>"

definition last_minute :: datetime where
  \<comment> \<open>9999-12-31T23:59:00, naive\<close>
  "last_minute = \<lparr>ticks = datetime_max - 59999999, tzinfo = None\<rparr>"

definition env0 :: env where
  "env0 = \<lparr>remove_raises = (\<lambda>p. False), open_raises = (\<lambda>p. False), UPLOAD_DIR = ''./uploads'',
           hash_password = (\<lambda>p. ''#'' @ p),
           create_access_token = (\<lambda>sub uid role. sub),
           EMAIL_REGEX_match = (\<lambda>v. CHR ''@'' \<in> set v),
           text_le = (\<lambda>a b. case (a, b) of (Iso x, Iso y) \<Rightarrow> ticks x \<le> ticks y | _ \<Rightarrow> True),
           Tag_user_fk = True, parses_as_datetime = (\<lambda>t. False), max_sql_variables = 999\<rparr>"

definition alice :: UserResponse where
  "alice = \<lparr>UserResponse_id = 1, UserResponse_email = ''alice@example.org'',
            UserResponse_name = ''Alice'', UserResponse_role = USER,
            UserResponse_created_at = Iso noon\<rparr>"

definition bob :: UserResponse where
  "bob = \<lparr>UserResponse_id = 2, UserResponse_email = ''bob@example.org'',
          UserResponse_name = ''Bob'', UserResponse_role = USER,
          UserResponse_created_at = Iso noon\<rparr>"

definition root :: UserResponse where
  "root = \<lparr>UserResponse_id = 3, UserResponse_email = ''root@example.org'',
           UserResponse_name = ''Root'', UserResponse_role = ADMIN,
           UserResponse_created_at = Iso noon\<rparr>"

definition user_row_of :: "UserResponse \<Rightarrow> User_row" where
  "user_row_of u = \<lparr>User_id = UserResponse_id u, User_email = UserResponse_email u,
                    User_name = UserResponse_name u, User_password = ''#secret'',
                    User_role = UserResponse_role u, User_created_at = UserResponse_created_at u\<rparr>"

definition state0 :: state where
  \<comment> \<open>three users and no other row\<close>
  "state0 = \<lparr>User = [user_row_of alice, user_row_of bob, user_row_of root],
             Tag = [], Task = [], TaskTag = [], SubTask = [], File = [], Reminder = [],
             User_seq = 3, Tag_seq = 0, Task_seq = 0, SubTask_seq = 0, File_seq = 0,
             Reminder_seq = 0, disk = []\<rparr>"

definition state1 :: state where
  \<comment> \<open>Alice owns task 1; Bob owns task 2 with a tag, a subtask, a file and a reminder\<close>
  "state1 = state0
     \<lparr>Tag := [\<lparr>Tag_id = 1, Tag_user_id = 2, Tag_name = ''home'', Tag_created_at = Iso noon\<rparr>],
      Task := [\<lparr>Task_id = 1, Task_user_id = 1, Task_title = ''Water the plants'',
                Task_description = None, Task_due_at = None, Task_status = TODO,
                Task_repeat_interval_minutes = None,
                Task_created_at = Iso noon, Task_updated_at = Iso noon\<rparr>,
               \<lparr>Task_id = 2, Task_user_id = 2, Task_title = ''Pay the rent'',
                Task_description = Some ''monthly'', Task_due_at = Some (Iso noon),
                Task_status = IN_PROGRESS, Task_repeat_interval_minutes = Some 1440,
                Task_created_at = Iso noon, Task_updated_at = Iso noon\<rparr>],
      TaskTag := [(2, 1)],
      SubTask := [\<lparr>SubTask_id = 1, SubTask_task_id = 2, SubTask_user_id = 2,
                   SubTask_title = ''Find the bill'', SubTask_is_done = False,
                   SubTask_created_at = Iso noon, SubTask_updated_at = Iso noon\<rparr>],
      File := [\<lparr>File_id = 1, File_task_id = 2, File_user_id = 2, File_filename = ''bill.pdf'',
                File_content_type = Some ''application/pdf'', File_size_bytes = 3,
                File_storage_path = ''./uploads/u1__bill.pdf'', File_created_at = Iso noon\<rparr>],
      Reminder := [\<lparr>Reminder_id = 1, Reminder_task_id = 2, Reminder_user_id = 2,
                    Reminder_every_minutes = 60, Reminder_start_at = None,
                    Reminder_end_at = None, Reminder_is_enabled = True,
                    Reminder_next_run_at = None, Reminder_created_at = Iso noon\<rparr>],
      Tag_seq := 1, Task_seq := 2, SubTask_seq := 1, File_seq := 1, Reminder_seq := 1,
      disk := [(''./uploads/u1__bill.pdf'', ''pdf'')]\<rparr>"

section \<open>Pagination\<close>




section \<open>The next run of a reminder\<close>

text \<open>
  C8, as amended. With no start (or an empty or malformed one) \<open>compute_next_run\<close> returns
  the clock reading plus the interval; with a start that parses it returns the start (taken
  as UTC when it names no zone) plus the interval; a malformed start raises nothing. This
  holds whenever the sum is a date of the years 1 to 9999. When it is not, the addition
  raises \<open>OverflowError\<close>, which \<open>compute_next_run\<close> does not catch.
\<close>

theorem compute_next_run_within_range:
  "(in_datetime_range (ticks utcnow + timedelta_minutes m) \<longrightarrow>
      compute_next_run utcnow None m
        = Inr (Iso (utcnow\<lparr>ticks := ticks utcnow + timedelta_minutes m\<rparr>))
      \<and> compute_next_run utcnow (Some (Malformed t)) m
        = Inr (Iso (utcnow\<lparr>ticks := ticks utcnow + timedelta_minutes m\<rparr>)))
   \<and> (in_datetime_range (ticks d + timedelta_minutes m) \<longrightarrow>
      compute_next_run utcnow (Some (Iso d)) m
        = Inr (Iso ((replace_utc_if_naive d)\<lparr>ticks := ticks d + timedelta_minutes m\<rparr>)))
   \<and> (\<not> in_datetime_range (ticks utcnow + timedelta_minutes m) \<longrightarrow>
      compute_next_run utcnow None m = Inl OverflowError
      \<and> compute_next_run utcnow (Some (Malformed t)) m = Inl OverflowError)
   \<and> (\<not> in_datetime_range (ticks d + timedelta_minutes m) \<longrightarrow>
      compute_next_run utcnow (Some (Iso d)) m = Inl OverflowError)"
  by (auto simp: compute_next_run_def datetime_add_def in_datetime_range_def isoformat_def
      replace_utc_if_naive_def Let_def)

theorem compute_next_run_within_range_witness:
  "compute_next_run noon None 60 = Inr (Iso (noon\<lparr>ticks := 63871333200000000\<rparr>))
   \<and> compute_next_run noon (Some (Malformed ''malformed'')) 60
       = Inr (Iso (noon\<lparr>ticks := 63871333200000000\<rparr>))
   \<and> compute_next_run noon (Some (Iso (noon\<lparr>ticks := 0, tzinfo := None\<rparr>))) 60
       = Inr (Iso (noon\<lparr>ticks := 3600000000\<rparr>))
   \<and> compute_next_run noon (Some (Iso last_minute)) (-60)
       = Inr (Iso \<lparr>ticks = datetime_max - 3659999999, tzinfo = Some 0\<rparr>)
   \<and> compute_next_run noon None (- 1000000000000) = Inl OverflowError"
  using compute_next_run_within_range [of noon 60 "''malformed''" "noon\<lparr>ticks := 0, tzinfo := None\<rparr>"]
    compute_next_run_within_range [of noon "-60" "''x''" last_minute]
    compute_next_run_within_range [of noon "- 1000000000000" "''x''" last_minute]
  by (simp add: in_datetime_range_def timedelta_minutes_def datetime_max_def noon_def
      last_minute_def replace_utc_if_naive_def)

theorem compute_next_run_overflows:
  "compute_next_run noon (Some (Iso last_minute)) 1 = Inl OverflowError"
  by (simp add: compute_next_run_def datetime_add_def last_minute_def timedelta_minutes_def
      replace_utc_if_naive_def datetime_max_def)

section \<open>Access to the resources of another user\<close>

lemma ensure_task_access_eq:
  "ensure_task_access owner current
     = (if may_access current owner then Inr () else Inl AccessDenied)"
  by (auto simp: ensure_task_access_def may_access_def canAccess_def)































section \<open>Failures after a write\<close>

text \<open>
  C3 at a failing input. Tag 1 is Bob's. Alice creates a task with \<open>tag_ids = [1]\<close>:
  \<open>create_task\<close> inserts the task row, then \<open>sync_task_tags\<close> refuses the tag, and the
  answer is the error while the row stays in the table. \<open>update_task\<close> likewise writes the
  new title before the tags are checked.
\<close>

theorem create_task_unknown_tag_leaves_row:
  "snd (create_task env0 state1 noon alice None
          \<lparr>TaskCreate_title = ''Buy milk'', TaskCreate_description = None,
           TaskCreate_due_at = None, TaskCreate_status = TODO,
           TaskCreate_repeat_interval_minutes = None, TaskCreate_tag_ids = Some [1],
           TaskCreate_subtasks = None\<rparr>) = Inl (UnknownTagIds [1])
   \<and> map Task_title (Task (fst (create_task env0 state1 noon alice None
          \<lparr>TaskCreate_title = ''Buy milk'', TaskCreate_description = None,
           TaskCreate_due_at = None, TaskCreate_status = TODO,
           TaskCreate_repeat_interval_minutes = None, TaskCreate_tag_ids = Some [1],
           TaskCreate_subtasks = None\<rparr>)))
       = [''Water the plants'', ''Pay the rent'', ''Buy milk'']
   \<and> snd (update_task env0 state1 alice 1
          \<lparr>TaskUpdate_title = Some ''Renamed'', TaskUpdate_description = None,
           TaskUpdate_due_at = None, TaskUpdate_status = None,
           TaskUpdate_repeat_interval_minutes = None, TaskUpdate_tag_ids = Some [1]\<rparr>)
       = Inl (UnknownTagIds [1])
   \<and> map Task_title (Task (fst (update_task env0 state1 alice 1
          \<lparr>TaskUpdate_title = Some ''Renamed'', TaskUpdate_description = None,
           TaskUpdate_due_at = None, TaskUpdate_status = None,
           TaskUpdate_repeat_interval_minutes = None, TaskUpdate_tag_ids = Some [1]\<rparr>)))
       = [''Renamed'', ''Pay the rent'']"
  by code_simp

section \<open>Acting for another user\<close>

text \<open>
  C4 at a failing input. No user has the key 99. An admin who creates a task for user 99 is
  answered \<open>NotFound\<close>; an admin who creates a tag for user 99 is not: \<open>create_tag\<close> does
  not look the user up, so the insert either breaks the foreign key (500, database error) or,
  where the table declares none, stores a tag owned by nobody.
\<close>

theorem create_tag_for_missing_user:
  "select_User state1 99 = None
   \<and> create_task env0 state1 noon root (Some 99)
        \<lparr>TaskCreate_title = ''Buy milk'', TaskCreate_description = None,
         TaskCreate_due_at = None, TaskCreate_status = TODO,
         TaskCreate_repeat_interval_minutes = None, TaskCreate_tag_ids = None,
         TaskCreate_subtasks = None\<rparr> = (state1, Inl NotFound)
   \<and> create_tag (env0\<lparr>Tag_user_fk := True\<rparr>) state1 noon root (Some 99)
        \<lparr>TagCreate_name = ''work''\<rparr> = (state1, Inl DatabaseError)
   \<and> snd (create_tag (env0\<lparr>Tag_user_fk := False\<rparr>) state1 noon root (Some 99)
        \<lparr>TagCreate_name = ''work''\<rparr>)
       = Inr \<lparr>Tag_id = 2, Tag_user_id = 99, Tag_name = ''work'', Tag_created_at = Iso noon\<rparr>"
  by code_simp

section \<open>Children carry the owner of their task\<close>

lemma find_snoc:
  "find P (xs @ [x]) = (case find P xs of None \<Rightarrow> (if P x then Some x else None) | Some y \<Rightarrow> Some y)"
  by (induction xs) auto

lemma find_filter_other:
  "i \<noteq> j \<Longrightarrow> find (\<lambda>r. Task_id r = i) (filter (\<lambda>r. Task_id r \<noteq> j) xs) = find (\<lambda>r. Task_id r = i) xs"
  by (induction xs) auto

lemma find_map_same_key:
  assumes "\<And>r. Task_id (f r) = Task_id r" and "\<And>r. Task_user_id (f r) = Task_user_id r"
  shows "map_option Task_user_id (find (\<lambda>r. Task_id r = i) (map (\<lambda>r. if Task_id r = j then f r else r) xs))
         = map_option Task_user_id (find (\<lambda>r. Task_id r = i) xs)"
  using assms by (induction xs) auto

lemma store_ok_frame:
  assumes "Task s' = Task s" "TaskTag s' = TaskTag s" "SubTask s' = SubTask s" "File s' = File s"
    "Reminder s' = Reminder s" "Task_seq s' = Task_seq s"
  shows "store_ok s' = store_ok s"
  using assms
  by (simp add: store_ok_def keys_issued_def child_owner_inv_def owner_of_def select_Task_def)

lemma owner_of_frame: "Task s' = Task s \<Longrightarrow> owner_of s' i = owner_of s i"
  by (simp add: owner_of_def select_Task_def)

lemma owner_of_select: "select_Task s i = Some t \<Longrightarrow> owner_of s i = Some (Task_user_id t)"
  by (simp add: owner_of_def)

lemma select_Task_key: "select_Task s i = Some t \<Longrightarrow> Task_id t = i \<and> t \<in> set (Task s)"
  by (auto simp: select_Task_def find_Some_iff)

lemma keys_issued_select:
  "keys_issued s \<Longrightarrow> select_Task s i = Some t \<Longrightarrow> i \<le> Task_seq s"
  by (auto simp: keys_issued_def list_all_iff dest!: select_Task_key)

subsection \<open>Inserting rows\<close>

lemma insert_Task_fresh:
  assumes "keys_issued s"
  shows "select_Task s (Task_seq s + 1) = None"
  using assms by (auto simp: keys_issued_def list_all_iff select_Task_def find_None_iff)

lemma insert_Task_ok:
  assumes "store_ok s" and "insert_Task s utcnow u t d due st rep = (s1, i)"
  shows "store_ok s1" and "owner_of s1 i = Some u" and "i = Task_seq s1"
proof -
  have fresh: "find (\<lambda>r. Task_id r = Task_seq s + 1) (Task s) = None"
    using assms(1) insert_Task_fresh by (simp add: store_ok_def select_Task_def)
  have s1: "s1 = s\<lparr>Task := Task s @ [\<lparr>Task_id = Task_seq s + 1, Task_user_id = u, Task_title = t,
               Task_description = d, Task_due_at = due, Task_status = st,
               Task_repeat_interval_minutes = rep,
               Task_created_at = isoformat utcnow, Task_updated_at = isoformat utcnow\<rparr>],
             Task_seq := Task_seq s + 1\<rparr>" and i: "i = Task_seq s + 1"
    using assms(2) by (auto simp: insert_Task_def Let_def)
  show "i = Task_seq s1" by (simp add: s1 i)
  show "owner_of s1 i = Some u"
    by (simp add: s1 i owner_of_def select_Task_def find_snoc fresh)
  have old: "\<And>k v. owner_of s k = Some v \<Longrightarrow> owner_of s1 k = Some v"
    by (auto simp: s1 owner_of_def select_Task_def find_snoc split: option.split)
  have "keys_issued s1"
    using assms(1) by (auto simp: s1 store_ok_def keys_issued_def list_all_iff)
  moreover have "child_owner_inv s1"
    using assms(1) old
    by (simp add: store_ok_def child_owner_inv_def list_all_iff s1)
  ultimately show "store_ok s1" by (simp add: store_ok_def)
qed

lemma insert_SubTask_ok:
  assumes "store_ok s" and "owner_of s task_id = Some u"
  shows "store_ok (fst (insert_SubTask s utcnow task_id u t d))"
    and "owner_of (fst (insert_SubTask s utcnow task_id u t d)) k = owner_of s k"
  using assms
  by (simp_all add: insert_SubTask_def Let_def store_ok_def keys_issued_def child_owner_inv_def
      owner_of_def select_Task_def)

lemma insert_File_ok:
  assumes "store_ok s" and "owner_of s task_id = Some u"
  shows "store_ok (fst (insert_File s utcnow task_id u n c z p))"
  using assms
  by (simp add: insert_File_def Let_def store_ok_def keys_issued_def child_owner_inv_def
      owner_of_def select_Task_def)

lemma insert_Reminder_ok:
  assumes "store_ok s" and "owner_of s task_id = Some u"
  shows "store_ok (fst (insert_Reminder s utcnow task_id u m a b c d))"
  using assms
  by (simp add: insert_Reminder_def Let_def store_ok_def keys_issued_def child_owner_inv_def
      owner_of_def select_Task_def)

lemma insert_or_ignore_TaskTag_ok:
  assumes "store_ok s" and "task_id \<le> Task_seq s"
  shows "store_ok (insert_or_ignore_TaskTag s task_id tag_id)"
    and "Task_seq (insert_or_ignore_TaskTag s task_id tag_id) = Task_seq s"
    and "Task (insert_or_ignore_TaskTag s task_id tag_id) = Task s"
  using assms
  by (simp_all add: insert_or_ignore_TaskTag_def store_ok_def keys_issued_def child_owner_inv_def
      owner_of_def select_Task_def)

lemma fold_insert_or_ignore_ok:
  assumes "store_ok s" and "task_id \<le> Task_seq s"
  shows "store_ok (fold (\<lambda>tid st. insert_or_ignore_TaskTag st task_id tid) ids s)
         \<and> Task_seq (fold (\<lambda>tid st. insert_or_ignore_TaskTag st task_id tid) ids s) = Task_seq s
         \<and> Task (fold (\<lambda>tid st. insert_or_ignore_TaskTag st task_id tid) ids s) = Task s"
  using assms
proof (induction ids arbitrary: s)
  case Nil
  then show ?case by simp
next
  case (Cons a ids)
  then show ?case
    using insert_or_ignore_TaskTag_ok [of s task_id a] by simp
qed

lemma sync_task_tags_ok:
  assumes "store_ok s" and "task_id \<le> Task_seq s"
  shows "store_ok (fst (sync_task_tags e s task_id u ids))"
    and "Task_seq (fst (sync_task_tags e s task_id u ids)) = Task_seq s"
    and "Task (fst (sync_task_tags e s task_id u ids)) = Task s"
proof -
  let ?s1 = "s\<lparr>TaskTag := filter (\<lambda>tt. fst tt \<noteq> task_id) (TaskTag s)\<rparr>"
  have ok1: "store_ok ?s1"
    using assms(1)
    by (simp add: store_ok_def keys_issued_def child_owner_inv_def owner_of_def select_Task_def
        list_all_iff)
  have seq1: "task_id \<le> Task_seq ?s1" using assms(2) by simp
  note f = fold_insert_or_ignore_ok [OF ok1 seq1]
  have "fst (sync_task_tags e s task_id u ids) = s
        \<or> fst (sync_task_tags e s task_id u ids)
             = fold (\<lambda>tid st. insert_or_ignore_TaskTag st task_id tid)
                 (case ids of None \<Rightarrow> [] | Some l \<Rightarrow> l) ?s1"
    by (simp add: sync_task_tags_def Let_def split: option.split)
  then show "store_ok (fst (sync_task_tags e s task_id u ids))"
    and "Task_seq (fst (sync_task_tags e s task_id u ids)) = Task_seq s"
    and "Task (fst (sync_task_tags e s task_id u ids)) = Task s"
    using assms(1) f by auto
qed

subsection \<open>Deleting rows\<close>

lemma try_remove_frame:
  "Task (try_remove e s p) = Task s \<and> TaskTag (try_remove e s p) = TaskTag s
   \<and> SubTask (try_remove e s p) = SubTask s \<and> File (try_remove e s p) = File s
   \<and> Reminder (try_remove e s p) = Reminder s \<and> Task_seq (try_remove e s p) = Task_seq s"
  by (simp add: try_remove_def)

lemma fold_try_remove_frame:
  "Task (fold (\<lambda>f acc. try_remove e acc f) ps s) = Task s
   \<and> TaskTag (fold (\<lambda>f acc. try_remove e acc f) ps s) = TaskTag s
   \<and> SubTask (fold (\<lambda>f acc. try_remove e acc f) ps s) = SubTask s
   \<and> File (fold (\<lambda>f acc. try_remove e acc f) ps s) = File s
   \<and> Reminder (fold (\<lambda>f acc. try_remove e acc f) ps s) = Reminder s
   \<and> Task_seq (fold (\<lambda>f acc. try_remove e acc f) ps s) = Task_seq s"
  by (induction ps arbitrary: s) (simp_all add: try_remove_frame)

lemma delete_Task_cascade_ok:
  assumes "store_ok s"
  shows "store_ok (delete_Task_cascade s task_id)"
proof -
  have other: "\<And>k. k \<noteq> task_id \<Longrightarrow> owner_of (delete_Task_cascade s task_id) k = owner_of s k"
    by (simp add: owner_of_def select_Task_def delete_Task_cascade_def find_filter_other)
  have "keys_issued (delete_Task_cascade s task_id)"
    using assms by (auto simp: store_ok_def keys_issued_def delete_Task_cascade_def list_all_iff)
  moreover have "child_owner_inv (delete_Task_cascade s task_id)"
    unfolding child_owner_inv_def list_all_iff
  proof (intro conjI ballI)
    fix c assume "c \<in> set (SubTask (delete_Task_cascade s task_id))"
    then have "c \<in> set (SubTask s)" and "SubTask_task_id c \<noteq> task_id"
      by (auto simp: delete_Task_cascade_def)
    then show "owner_of (delete_Task_cascade s task_id) (SubTask_task_id c) = Some (SubTask_user_id c)"
      using assms other by (auto simp: store_ok_def child_owner_inv_def list_all_iff)
  next
    fix c assume "c \<in> set (File (delete_Task_cascade s task_id))"
    then have "c \<in> set (File s)" and "File_task_id c \<noteq> task_id"
      by (auto simp: delete_Task_cascade_def)
    then show "owner_of (delete_Task_cascade s task_id) (File_task_id c) = Some (File_user_id c)"
      using assms other by (auto simp: store_ok_def child_owner_inv_def list_all_iff)
  next
    fix c assume "c \<in> set (Reminder (delete_Task_cascade s task_id))"
    then have "c \<in> set (Reminder s)" and "Reminder_task_id c \<noteq> task_id"
      by (auto simp: delete_Task_cascade_def)
    then show "owner_of (delete_Task_cascade s task_id) (Reminder_task_id c) = Some (Reminder_user_id c)"
      using assms other by (auto simp: store_ok_def child_owner_inv_def list_all_iff)
  qed
  ultimately show ?thesis by (simp add: store_ok_def)
qed

lemma fold_delete_Task_cascade_ok:
  "store_ok s \<Longrightarrow> store_ok (fold (\<lambda>t st. delete_Task_cascade st (Task_id t)) ts s)"
  by (induction ts arbitrary: s) (simp_all add: delete_Task_cascade_ok)

lemma delete_User_cascade_ok: "store_ok s \<Longrightarrow> store_ok (delete_User_cascade s user_id)"
proof -
  assume ok: "store_ok s"
  let ?s1 = "fold (\<lambda>t st. delete_Task_cascade st (Task_id t))
               (filter (\<lambda>t. Task_user_id t = user_id) (Task s)) s"
  have "store_ok ?s1" using ok by (rule fold_delete_Task_cascade_ok)
  moreover have "store_ok (?s1\<lparr>User := filter (\<lambda>r. User_id r \<noteq> user_id) (User ?s1)\<rparr>) = store_ok ?s1"
    by (rule store_ok_frame) simp_all
  ultimately show ?thesis by (simp add: delete_User_cascade_def Let_def)
qed

subsection \<open>The endpoints keep the state well formed\<close>

lemma fst_option_case: "fst (case x of None \<Rightarrow> (a, p) | Some y \<Rightarrow> (a, q y)) = a"
  by (simp split: option.split)

lemma fst_sum_case: "fst (case x of Inl err \<Rightarrow> (a, p err) | Inr v \<Rightarrow> (a, q v)) = a"
  by (simp split: sum.split)


lemma insert_Task_ok_fst:
  assumes "store_ok s"
  shows "store_ok (fst (insert_Task s utcnow u t d due st rep))"
    and "owner_of (fst (insert_Task s utcnow u t d due st rep))
           (snd (insert_Task s utcnow u t d due st rep)) = Some u"
    and "snd (insert_Task s utcnow u t d due st rep)
           = Task_seq (fst (insert_Task s utcnow u t d due st rep))"
proof -
  obtain s1 i where e: "insert_Task s utcnow u t d due st rep = (s1, i)"
    by (cases "insert_Task s utcnow u t d due st rep")
  note r = insert_Task_ok [OF assms e]
  show "store_ok (fst (insert_Task s utcnow u t d due st rep))" using r(1) by (simp add: e)
  show "owner_of (fst (insert_Task s utcnow u t d due st rep))
           (snd (insert_Task s utcnow u t d due st rep)) = Some u" using r(2) by (simp add: e)
  show "snd (insert_Task s utcnow u t d due st rep)
           = Task_seq (fst (insert_Task s utcnow u t d due st rep))" using r(3) by (simp add: e)
qed

lemma register_ok: "store_ok s \<Longrightarrow> store_ok (fst (register e s utcnow d))"
proof -
  assume ok: "store_ok s"
  have "\<And>x i. store_ok (s\<lparr>User := x, User_seq := i\<rparr>) = store_ok s"
    by (rule store_ok_frame) simp_all
  then show ?thesis
    using ok by (simp add: register_def Let_def split: option.split sum.split)
qed

lemma update_user_ok: "store_ok s \<Longrightarrow> store_ok (fst (update_user e s current i d))"
proof -
  assume ok: "store_ok s"
  have "\<And>x. store_ok (s\<lparr>User := x\<rparr>) = store_ok s"
    by (rule store_ok_frame) simp_all
  then show ?thesis
    using ok by (simp add: update_user_def Let_def split: option.split)
qed

lemma delete_user_ok: "store_ok s \<Longrightarrow> store_ok (fst (delete_user e s current i))"
  by (simp add: delete_user_def delete_User_cascade_ok)

lemma insert_Tag_ok: "store_ok s \<Longrightarrow> store_ok (fst (insert_Tag e s utcnow u n))"
proof -
  assume ok: "store_ok s"
  have "\<And>x i. store_ok (s\<lparr>Tag := x, Tag_seq := i\<rparr>) = store_ok s"
    by (rule store_ok_frame) simp_all
  then show ?thesis
    using ok by (simp add: insert_Tag_def Let_def)
qed

lemma create_tag_ok: "store_ok s \<Longrightarrow> store_ok (fst (create_tag e s utcnow current u d))"
  by (simp add: create_tag_def Let_def split_beta insert_Tag_ok
      split: option.split sum.split)

lemma update_Tag_name_ok: "store_ok s \<Longrightarrow> update_Tag_name s i n = Some s1 \<Longrightarrow> store_ok s1"
proof -
  assume ok: "store_ok s" and u: "update_Tag_name s i n = Some s1"
  have "\<And>x. store_ok (s\<lparr>Tag := x\<rparr>) = store_ok s"
    by (rule store_ok_frame) simp_all
  then show ?thesis
    using ok u by (auto simp: update_Tag_name_def split: if_splits)
qed

lemma update_tag_ok: "store_ok s \<Longrightarrow> store_ok (fst (update_tag e s current i d))"
  by (auto simp: update_tag_def dest: update_Tag_name_ok split: option.split)

lemma delete_tag_ok: "store_ok s \<Longrightarrow> store_ok (fst (delete_tag e s current i))"
proof -
  assume ok: "store_ok s"
  have "store_ok (delete_Tag_cascade s i)"
    using ok
    by (simp add: delete_Tag_cascade_def store_ok_def keys_issued_def child_owner_inv_def
        owner_of_def select_Task_def list_all_iff)
  then show ?thesis
    using ok by (simp add: delete_tag_def split: option.split)
qed

lemma fold_insert_SubTask_ok:
  assumes "store_ok s" and "owner_of s task_id = Some u"
  shows "store_ok (fold (\<lambda>st acc. fst (insert_SubTask acc utcnow task_id u (f st) (g st))) sts s)"
  using assms
proof (induction sts arbitrary: s)
  case Nil
  then show ?case by simp
next
  case (Cons a sts)
  show ?case
    using Cons.IH [of "fst (insert_SubTask s utcnow task_id u (f a) (g a))"]
      insert_SubTask_ok [OF Cons.prems, of utcnow "f a" "g a"]
    by (simp add: Cons.prems)
qed

lemma create_task_ok: "store_ok s \<Longrightarrow> store_ok (fst (create_task e s utcnow current u d))"
proof -
  assume ok: "store_ok s"
  define target where "target = (case u of None \<Rightarrow> UserResponse_id current | Some v \<Rightarrow> v)"
  obtain s1 i where ins: "insert_Task s utcnow target (strip (TaskCreate_title d))
      (TaskCreate_description d) (map_option isoformat (TaskCreate_due_at d))
      (TaskCreate_status d) (TaskCreate_repeat_interval_minutes d) = (s1, i)"
    by (cases "insert_Task s utcnow target (strip (TaskCreate_title d))
      (TaskCreate_description d) (map_option isoformat (TaskCreate_due_at d))
      (TaskCreate_status d) (TaskCreate_repeat_interval_minutes d)")
  obtain s2 r where sync: "sync_task_tags e s1 i target (TaskCreate_tag_ids d) = (s2, r)"
    by (cases "sync_task_tags e s1 i target (TaskCreate_tag_ids d)")
  define s3 where "s3 = fold (\<lambda>st acc. fst (insert_SubTask acc utcnow i target
                 (strip (SubTaskInlineCreate_title st)) (SubTaskInlineCreate_is_done st)))
               (inline_subtasks d) s2"
  note a = insert_Task_ok [OF ok ins]
  have le: "i \<le> Task_seq s1" using a(3) by simp
  note b = sync_task_tags_ok [OF a(1) le, of e target "TaskCreate_tag_ids d"]
  have ok2: "store_ok s2" using b(1) by (simp add: sync)
  have "Task s2 = Task s1" using b(3) by (simp add: sync)
  then have own2: "owner_of s2 i = Some target"
    using a(2) owner_of_frame [of s2 s1 i] by simp
  have ok3: "store_ok s3"
    unfolding s3_def using ok2 own2 by (rule fold_insert_SubTask_ok)
  have "fst (create_task e s utcnow current u d) = s
        \<or> fst (create_task e s utcnow current u d) = s2
        \<or> fst (create_task e s utcnow current u d) = s3"
    unfolding create_task_def target_def [symmetric] Let_def
    by (cases r) (simp_all add: ins sync s3_def split: option.split)
  then show ?thesis using ok ok2 ok3 by auto
qed

lemma update_Task_row_keys:
  "Task_id (update_Task_row d r) = Task_id r" "Task_user_id (update_Task_row d r) = Task_user_id r"
  by (simp_all add: update_Task_row_def Let_def split: option.split)

lemma update_task_rows_ok:
  assumes "store_ok s"
  shows "store_ok (s\<lparr>Task := map (\<lambda>r. if Task_id r = i then update_Task_row d r else r) (Task s)\<rparr>)"
    (is "store_ok ?s1")
proof -
  have own: "\<And>k. owner_of ?s1 k = owner_of s k"
    by (simp add: owner_of_def select_Task_def find_map_same_key update_Task_row_keys)
  have "keys_issued ?s1"
    using assms by (auto simp: store_ok_def keys_issued_def list_all_iff update_Task_row_keys)
  moreover have "child_owner_inv ?s1"
    using assms unfolding store_ok_def child_owner_inv_def own by simp
  ultimately show ?thesis by (simp add: store_ok_def)
qed

lemma update_task_ok: "store_ok s \<Longrightarrow> store_ok (fst (update_task e s current i d))"
proof -
  assume ok: "store_ok s"
  define s1 where "s1 = s\<lparr>Task := map (\<lambda>r. if Task_id r = i then update_Task_row d r else r) (Task s)\<rparr>"
  have ok1: "store_ok s1" unfolding s1_def using ok by (rule update_task_rows_ok)
  show ?thesis
  proof (cases "select_Task s i")
    case None
    then show ?thesis using ok by (simp add: update_task_def)
  next
    case (Some row)
    have le: "i \<le> Task_seq s1"
      using ok keys_issued_select [OF _ Some] by (simp add: store_ok_def s1_def)
    obtain s2 r where sync: "sync_task_tags e s1 i (Task_user_id row) (TaskUpdate_tag_ids d) = (s2, r)"
      by (cases "sync_task_tags e s1 i (Task_user_id row) (TaskUpdate_tag_ids d)")
    have ok2: "store_ok s2"
      using sync_task_tags_ok(1) [OF ok1 le, of e "Task_user_id row" "TaskUpdate_tag_ids d"]
      by (simp add: sync)
    have "fst (update_task e s current i d) = s \<or> fst (update_task e s current i d) = s2"
      unfolding update_task_def Let_def
      by (cases r) (simp_all add: Some sync s1_def [symmetric] split: option.split sum.split)
    then show ?thesis using ok ok2 by auto
  qed
qed

lemma fold_try_remove_ok: "store_ok s \<Longrightarrow> store_ok (fold (\<lambda>f acc. try_remove e acc f) ps s)"
proof -
  assume ok: "store_ok s"
  have "store_ok (fold (\<lambda>f acc. try_remove e acc f) ps s) = store_ok s"
    by (rule store_ok_frame) (simp_all add: fold_try_remove_frame)
  then show ?thesis using ok by simp
qed

lemma delete_task_ok: "store_ok s \<Longrightarrow> store_ok (fst (delete_task e s current i))"
  by (simp add: delete_task_def Let_def delete_Task_cascade_ok fold_try_remove_ok
      split: option.split sum.split)

lemma generate_next_occurrence_ok:
  "store_ok s \<Longrightarrow> store_ok (fst (generate_next_occurrence e s utcnow current i))"
proof -
  assume ok: "store_ok s"
  have step: "store_ok (fold (\<lambda>tl acc. insert_or_ignore_TaskTag acc
                  (snd (insert_Task s utcnow u t d due st rep)) tl) ls
                (fst (insert_Task s utcnow u t d due st rep)))" for u t d due st rep ls
  proof -
    note a = insert_Task_ok_fst [OF ok, of utcnow u t d due st rep]
    have "snd (insert_Task s utcnow u t d due st rep)
            \<le> Task_seq (fst (insert_Task s utcnow u t d due st rep))"
      using a(3) by simp
    then show ?thesis using fold_insert_or_ignore_ok [OF a(1)] by blast
  qed
  show ?thesis
    using ok
    by (simp add: generate_next_occurrence_def Let_def split_beta step
        split: option.split sum.split)
qed

lemma create_subtask_ok: "store_ok s \<Longrightarrow> store_ok (fst (create_subtask e s utcnow current d))"
proof -
  assume ok: "store_ok s"
  have "\<And>t. select_Task s (SubTaskCreate_task_id d) = Some t \<Longrightarrow>
      store_ok (fst (insert_SubTask s utcnow (SubTaskCreate_task_id d) (Task_user_id t)
        (strip (SubTaskCreate_title d)) (SubTaskCreate_is_done d)))"
    using insert_SubTask_ok(1) [OF ok] owner_of_select by blast
  then show ?thesis
    using ok
    by (simp add: create_subtask_def split_beta split: option.split sum.split)
qed

lemma update_SubTask_row_keys:
  "SubTask_task_id (update_SubTask_row d r) = SubTask_task_id r"
  "SubTask_user_id (update_SubTask_row d r) = SubTask_user_id r"
  by (simp_all add: update_SubTask_row_def Let_def split: option.split)

lemma update_subtask_ok: "store_ok s \<Longrightarrow> store_ok (fst (update_subtask e s current i d))"
proof -
  assume ok: "store_ok s"
  have "store_ok (s\<lparr>SubTask := map (\<lambda>r. if SubTask_id r = i then update_SubTask_row d r else r)
                                 (SubTask s)\<rparr>)"
    using ok
    by (auto simp: store_ok_def keys_issued_def child_owner_inv_def owner_of_def select_Task_def
        list_all_iff update_SubTask_row_keys)
  then show ?thesis
    using ok by (simp add: update_subtask_def Let_def split: option.split sum.split)
qed

lemma delete_subtask_ok: "store_ok s \<Longrightarrow> store_ok (fst (delete_subtask e s current i))"
proof -
  assume ok: "store_ok s"
  have "store_ok (s\<lparr>SubTask := filter (\<lambda>r. SubTask_id r \<noteq> i) (SubTask s)\<rparr>)"
    using ok
    by (auto simp: store_ok_def keys_issued_def child_owner_inv_def owner_of_def select_Task_def
        list_all_iff)
  then show ?thesis
    using ok by (simp add: delete_subtask_def split: option.split sum.split)
qed

lemma write_file_ok:
  assumes "store_ok s" and "write_file e s p b = Some s1"
  shows "store_ok s1" and "owner_of s1 k = owner_of s k"
proof -
  from assms(2) have s1: "s1 = s\<lparr>disk := (p, b) # filter (\<lambda>f. fst f \<noteq> p) (disk s)\<rparr>"
    by (auto simp: write_file_def split: if_splits)
  have "store_ok s1 = store_ok s" unfolding s1 by (rule store_ok_frame) simp_all
  then show "store_ok s1" using assms(1) by simp
  show "owner_of s1 k = owner_of s k" by (simp add: s1 owner_of_def select_Task_def)
qed

lemma upload_file_ok:
  "store_ok s \<Longrightarrow> store_ok (fst (upload_file e s utcnow uuid current i n c b))"
proof -
  assume ok: "store_ok s"
  have "store_ok (fst (insert_File s1 utcnow i (Task_user_id t) nm c z p))"
    if "write_file e s p b = Some s1" and "select_Task s i = Some t" for p s1 t nm z
    using write_file_ok(1) [OF ok that(1)] write_file_ok(2) [OF ok that(1), of i]
      owner_of_select [OF that(2)] insert_File_ok by simp
  then show ?thesis
    using ok
    by (simp add: upload_file_def Let_def split_beta split: option.split sum.split)
qed

lemma delete_file_ok: "store_ok s \<Longrightarrow> store_ok (fst (delete_file e s current i))"
proof -
  assume ok: "store_ok s"
  have "store_ok (try_remove e s p\<lparr>File := filter (\<lambda>r. File_id r \<noteq> i) (File (try_remove e s p))\<rparr>)"
    for p
    using ok
    by (auto simp: try_remove_def store_ok_def keys_issued_def child_owner_inv_def owner_of_def
        select_Task_def list_all_iff)
  then show ?thesis
    using ok by (simp add: delete_file_def Let_def split: option.split sum.split)
qed

lemma create_reminder_ok:
  "store_ok s \<Longrightarrow> store_ok (fst (create_reminder e s utcnow current i d))"
proof -
  assume ok: "store_ok s"
  have "\<And>t m a b c n. select_Task s i = Some t \<Longrightarrow>
      store_ok (fst (insert_Reminder s utcnow i (Task_user_id t) m a b c n))"
    using insert_Reminder_ok [OF ok] owner_of_select by blast
  then show ?thesis
    using ok
    by (simp add: create_reminder_def Let_def split_beta split: option.split sum.split)
qed

lemma update_Reminder_row_keys:
  "Reminder_task_id (update_Reminder_row d n r) = Reminder_task_id r"
  "Reminder_user_id (update_Reminder_row d n r) = Reminder_user_id r"
  by (simp_all add: update_Reminder_row_def Let_def split: option.split)

lemma delete_reminder_ok: "store_ok s \<Longrightarrow> store_ok (fst (delete_reminder e s current i j))"
proof -
  assume ok: "store_ok s"
  have "store_ok (s\<lparr>Reminder := filter (\<lambda>r. Reminder_id r \<noteq> j) (Reminder s)\<rparr>)"
    using ok
    by (auto simp: store_ok_def keys_issued_def child_owner_inv_def owner_of_def select_Task_def
        list_all_iff)
  then show ?thesis
    using ok by (simp add: delete_reminder_def split: option.split sum.split)
qed

lemma update_reminder_ok:
  "store_ok s \<Longrightarrow> store_ok (fst (update_reminder e s utcnow current i j d))"
proof -
  assume ok: "store_ok s"
  have upd: "store_ok (s\<lparr>Reminder := map (\<lambda>r. if Reminder_id r = j then update_Reminder_row d n r else r)
                                  (Reminder s)\<rparr>)" for n
    using ok
    by (auto simp: store_ok_def keys_issued_def child_owner_inv_def owner_of_def select_Task_def
        list_all_iff update_Reminder_row_keys)
  define untouched where "untouched \<longleftrightarrow>
      ReminderUpdate_every_minutes d = None \<and> ReminderUpdate_start_at d = None
      \<and> ReminderUpdate_end_at d = None \<and> ReminderUpdate_is_enabled d = None"
  define R where "R = update_reminder e s utcnow current i j d"
  have "fst R = s
        \<or> (\<exists>n. fst R = s\<lparr>Reminder := map (\<lambda>r. if Reminder_id r = j
                                                    then update_Reminder_row d n r else r)
                                          (Reminder s)\<rparr>)"
  proof (cases "valid_ReminderUpdate d \<and> fits_sqlite i")
    case False
    then show ?thesis by (auto simp: R_def update_reminder_def)
  next
    case wf: True
    show ?thesis
    proof (cases "select_Task s i")
      case None
      with wf show ?thesis by (simp add: R_def update_reminder_def)
    next
      case task: (Some task)
      show ?thesis
      proof (cases "may_access current (Task_user_id task) \<and> fits_sqlite j")
        case False
        with wf task show ?thesis
          by (auto simp: R_def update_reminder_def ensure_task_access_eq)
      next
        case acc: True
        show ?thesis
        proof (cases "select_Reminder_of_task s j i")
          case None
          with wf task acc show ?thesis
            by (simp add: R_def update_reminder_def ensure_task_access_eq)
        next
          case row: (Some row)
          show ?thesis
          proof (cases untouched)
            case True
            with wf task acc row show ?thesis
              unfolding R_def update_reminder_def Let_def untouched_def [symmetric]
              by (simp add: ensure_task_access_eq split: option.split)
          next
            case False
            show ?thesis
            proof (cases "compute_next_run utcnow
                (case ReminderUpdate_start_at d of None \<Rightarrow> Reminder_start_at row
                 | Some v \<Rightarrow> Some (isoformat v))
                (case ReminderUpdate_every_minutes d of None \<Rightarrow> Reminder_every_minutes row
                 | Some v \<Rightarrow> v)")
              case (Inl err)
              with wf task acc row False show ?thesis
                unfolding R_def update_reminder_def Let_def untouched_def [symmetric]
                by (simp add: ensure_task_access_eq)
            next
              case (Inr n)
              with wf task acc row False show ?thesis
                unfolding R_def update_reminder_def Let_def untouched_def [symmetric]
                by (auto simp: ensure_task_access_eq split: option.split)
            qed
          qed
        qed
      qed
    qed
  qed
  then show ?thesis using ok upd by (auto simp: R_def)
qed


lemma perform_ok: "store_ok s \<Longrightarrow> store_ok (fst (perform e utcnow uuid current req s))"
  by (cases req)
    (simp_all add: outcome_def register_ok update_user_ok delete_user_ok create_tag_ok
      update_tag_ok delete_tag_ok create_task_ok update_task_ok delete_task_ok
      generate_next_occurrence_ok create_subtask_ok update_subtask_ok delete_subtask_ok
      upload_file_ok delete_file_ok create_reminder_ok update_reminder_ok delete_reminder_ok)

lemma reads_keep_state:
  "fst (list_tags e s current u) = s"
  "fst (list_tasks e s current search status_filter due_from due_to u limit offset) = s"
  "fst (get_task e s current i) = s"
  "fst (list_subtasks e s current i) = s"
  "fst (calendar_view e s current date_from date_to u) = s"
  "fst (list_files e s current i) = s"
  "fst (download_file e s current i) = s"
  "fst (list_reminders e s current i) = s"
  by (simp_all add: list_tags_def list_tasks_def get_task_def list_subtasks_def calendar_view_def
      list_files_def download_file_def list_reminders_def Let_def split_beta
      split: option.split sum.split)

lemma create_subtask_copies_owner:
  assumes "valid_SubTaskCreate sc" and "fits_sqlite (SubTaskCreate_task_id sc)"
    and "select_Task s (SubTaskCreate_task_id sc) = Some parent"
    and "may_access current (Task_user_id parent)"
  shows "map (\<lambda>r. (SubTask_task_id r, SubTask_user_id r))
             (SubTask (fst (create_subtask e s utcnow current sc)))
         = map (\<lambda>r. (SubTask_task_id r, SubTask_user_id r)) (SubTask s)
           @ [(SubTaskCreate_task_id sc, Task_user_id parent)]"
  using assms
  by (simp add: create_subtask_def ensure_task_access_eq insert_SubTask_def Let_def
      split: option.split)

lemma upload_file_copies_owner:
  assumes "fits_sqlite task_id" and "select_Task s task_id = Some parent"
    and "may_access current (Task_user_id parent)"
    and "content \<noteq> []" and "int (length content) \<le> 26214400"
    and "\<not> open_raises e (path_join (UPLOAD_DIR e)
               (uuid @ ''__'' @ (case filename of None \<Rightarrow> ''file''
                                  | Some n \<Rightarrow> if n = [] then ''file'' else n)))"
  shows "map (\<lambda>r. (File_task_id r, File_user_id r))
             (File (fst (upload_file e s utcnow uuid current task_id filename content_type content)))
         = map (\<lambda>r. (File_task_id r, File_user_id r)) (File s)
           @ [(task_id, Task_user_id parent)]"
  using assms
  by (simp add: upload_file_def ensure_task_access_eq insert_File_def write_file_def Let_def
      split: option.split)

lemma create_reminder_copies_owner:
  assumes "valid_ReminderCreate rc" and "fits_sqlite task_id"
    and "select_Task s task_id = Some parent"
    and "may_access current (Task_user_id parent)"
    and "compute_next_run utcnow (map_option isoformat (ReminderCreate_start_at rc))
           (ReminderCreate_every_minutes rc) = Inr next_run"
  shows "map (\<lambda>r. (Reminder_task_id r, Reminder_user_id r))
             (Reminder (fst (create_reminder e s utcnow current task_id rc)))
         = map (\<lambda>r. (Reminder_task_id r, Reminder_user_id r)) (Reminder s)
           @ [(task_id, Task_user_id parent)]"
  using assms
  by (simp add: create_reminder_def ensure_task_access_eq insert_Reminder_def Let_def
      split: option.split)

text \<open>
  C2. In a state where every task key was handed out by the store (\<open>keys_issued\<close>), the
  property that every SubTask, File and Reminder row has a parent task and carries that
  task's \<open>user_id\<close> (\<open>child_owner_inv\<close>) is kept, together with \<open>keys_issued\<close>, by every
  request that writes, whether it succeeds or fails; the endpoints that only read return the
  state they were given. In particular a subtask, a file or a reminder that is created takes
  the \<open>user_id\<close> of the parent task, whoever the actor is.
\<close>

theorem child_rows_carry_owner:
  "(keys_issued s \<and> child_owner_inv s \<longrightarrow>
      keys_issued (fst (perform e utcnow uuid current req s))
      \<and> child_owner_inv (fst (perform e utcnow uuid current req s)))
   \<and> fst (list_tags e s current u) = s
   \<and> fst (list_tasks e s current search status_filter due_from due_to u limit offset) = s
   \<and> fst (get_task e s current task_id) = s
   \<and> fst (list_subtasks e s current task_id) = s
   \<and> fst (calendar_view e s current date_from date_to u) = s
   \<and> fst (list_files e s current task_id) = s
   \<and> fst (download_file e s current file_id) = s
   \<and> fst (list_reminders e s current task_id) = s
   \<and> (valid_SubTaskCreate sc \<and> fits_sqlite (SubTaskCreate_task_id sc)
        \<and> select_Task s (SubTaskCreate_task_id sc) = Some parent
        \<and> may_access current (Task_user_id parent) \<longrightarrow>
        map (\<lambda>r. (SubTask_task_id r, SubTask_user_id r))
            (SubTask (fst (create_subtask e s utcnow current sc)))
          = map (\<lambda>r. (SubTask_task_id r, SubTask_user_id r)) (SubTask s)
            @ [(SubTaskCreate_task_id sc, Task_user_id parent)])
   \<and> (fits_sqlite task_id \<and> select_Task s task_id = Some task
        \<and> may_access current (Task_user_id task)
        \<and> content \<noteq> [] \<and> int (length content) \<le> 26214400
        \<and> \<not> open_raises e (path_join (UPLOAD_DIR e)
               (uuid @ ''__'' @ (case filename of None \<Rightarrow> ''file''
                                  | Some n \<Rightarrow> if n = [] then ''file'' else n))) \<longrightarrow>
        map (\<lambda>r. (File_task_id r, File_user_id r))
            (File (fst (upload_file e s utcnow uuid current task_id filename content_type content)))
          = map (\<lambda>r. (File_task_id r, File_user_id r)) (File s) @ [(task_id, Task_user_id task)])
   \<and> (valid_ReminderCreate rc \<and> fits_sqlite task_id \<and> select_Task s task_id = Some task
        \<and> may_access current (Task_user_id task)
        \<and> compute_next_run utcnow (map_option isoformat (ReminderCreate_start_at rc))
             (ReminderCreate_every_minutes rc) = Inr next_run \<longrightarrow>
        map (\<lambda>r. (Reminder_task_id r, Reminder_user_id r))
            (Reminder (fst (create_reminder e s utcnow current task_id rc)))
          = map (\<lambda>r. (Reminder_task_id r, Reminder_user_id r)) (Reminder s)
            @ [(task_id, Task_user_id task)])"
proof -
  have inv: "keys_issued s \<and> child_owner_inv s \<longrightarrow>
      keys_issued (fst (perform e utcnow uuid current req s))
      \<and> child_owner_inv (fst (perform e utcnow uuid current req s))"
    using perform_ok [of s e utcnow uuid current req] by (simp add: store_ok_def)
  show ?thesis
    using inv
    by (intro conjI impI)
      (simp_all add: reads_keep_state create_subtask_copies_owner upload_file_copies_owner
        create_reminder_copies_owner)
qed

theorem child_rows_carry_owner_witness:
  "keys_issued state1 \<and> child_owner_inv state1
   \<and> keys_issued (fst (perform env0 noon ''u2'' root
        (CreateSubtask \<lparr>SubTaskCreate_task_id = 2, SubTaskCreate_title = ''Sign'',
                        SubTaskCreate_is_done = False\<rparr>) state1))
   \<and> child_owner_inv (fst (perform env0 noon ''u2'' root
        (CreateSubtask \<lparr>SubTaskCreate_task_id = 2, SubTaskCreate_title = ''Sign'',
                        SubTaskCreate_is_done = False\<rparr>) state1))
   \<and> UserResponse_id root = 3
   \<and> map (\<lambda>r. (SubTask_task_id r, SubTask_user_id r))
        (SubTask (fst (create_subtask env0 state1 noon root
           \<lparr>SubTaskCreate_task_id = 2, SubTaskCreate_title = ''Sign'',
            SubTaskCreate_is_done = False\<rparr>)))
       = [(2, 2), (2, 2)]
   \<and> map (\<lambda>r. (File_task_id r, File_user_id r))
        (File (fst (upload_file env0 state1 noon ''u2'' root 2 None None ''abc'')))
       = [(2, 2), (2, 2)]
   \<and> map (\<lambda>r. (Reminder_task_id r, Reminder_user_id r))
        (Reminder (fst (create_reminder env0 state1 noon root 2
           \<lparr>ReminderCreate_task_id = 2, ReminderCreate_every_minutes = 60,
            ReminderCreate_start_at = None, ReminderCreate_end_at = None,
            ReminderCreate_is_enabled = True\<rparr>)))
       = [(2, 2), (2, 2)]"
proof -
  have ok: "keys_issued state1 \<and> child_owner_inv state1"
    by code_simp
  have nr: "compute_next_run noon (map_option isoformat None) 60
              = Inr (Iso (noon\<lparr>ticks := 63871333200000000\<rparr>))"
    by code_simp
  show ?thesis
    using ok nr
      child_rows_carry_owner [where s = state1 and e = env0 and utcnow = noon
        and uuid = "''u2''" and current = root
        and req = "CreateSubtask \<lparr>SubTaskCreate_task_id = 2, SubTaskCreate_title = ''Sign'',
                        SubTaskCreate_is_done = False\<rparr>"
        and sc = "\<lparr>SubTaskCreate_task_id = 2, SubTaskCreate_title = ''Sign'',
                        SubTaskCreate_is_done = False\<rparr>"
        and parent = "the (select_Task state1 2)" and task_id = 2
        and task = "the (select_Task state1 2)" and content = "''abc''" and filename = None
        and content_type = None
        and rc = "\<lparr>ReminderCreate_task_id = 2, ReminderCreate_every_minutes = 60,
            ReminderCreate_start_at = None, ReminderCreate_end_at = None,
            ReminderCreate_is_enabled = True\<rparr>"
        and next_run = "Iso (noon\<lparr>ticks := 63871333200000000\<rparr>)"]
    by (simp add: state1_def state0_def root_def env0_def select_Task_def fits_sqlite_def
        may_access_def canAccess_def valid_SubTaskCreate_def valid_ReminderCreate_def
        valid_every_minutes_def len_between_def)
qed

end
